theory Spec2Isabelle
  imports Complex_Main "HOL-Library.AList"
begin

section \<open>Python values\<close>

text \<open>
  The services exchange JSON-shaped Python values: dictionaries are association lists in
  insertion order, strings are byte strings with ASCII letters, Python floats are modelled
  by exact rationals.
\<close>

datatype py_error =
    KeyError string
  | AttributeError
  | TypeError
  | ValueError
  | IndexError
  | ZeroDivisionError
  | PyException string
  | HTTPException nat string

text \<open>
  A float is a finite number, modelled by an exact rational, or one of the three values
  \<open>nan\<close>, \<open>inf\<close>, \<open>-inf\<close>, which JSON request bodies can carry.
\<close>

datatype nonfinite = NaN | PosInf | NegInf

datatype pyfloat = Finite rat | NonFinite nonfinite

datatype json =
    JNull
  | JBool bool
  | JInt int
  | JNum rat
  | JNonFinite nonfinite
  | JStr string
  | JList "json list"
  | JDict "(string \<times> json) list"

subsection \<open>Exceptions as values\<close>

text \<open>
  A Python call either returns (\<open>Inr\<close>) or raises (\<open>Inl\<close>). \<open>and_then\<close> sequences
  two calls, \<open>try_except\<close> is a \<open>try: ... except Exception: ...\<close> block.
\<close>

definition and_then :: "py_error + 'a \<Rightarrow> ('a \<Rightarrow> py_error + 'b) \<Rightarrow> py_error + 'b" where
  "and_then m f = (case m of Inl e \<Rightarrow> Inl e | Inr x \<Rightarrow> f x)"

definition try_except :: "py_error + 'a \<Rightarrow> (py_error \<Rightarrow> py_error + 'a) \<Rightarrow> py_error + 'a" where
  "try_except body handler = (case body of Inl e \<Rightarrow> handler e | Inr x \<Rightarrow> Inr x)"

subsection \<open>Dictionaries and truth values\<close>

text \<open>\<open>py_get v k d\<close> is \<open>v.get(k, d)\<close>; only dictionaries have the method.\<close>

definition py_get :: "json \<Rightarrow> string \<Rightarrow> json \<Rightarrow> py_error + json" where
  "py_get v k d =
     (case v of
        JDict kvs \<Rightarrow> Inr (case map_of kvs k of None \<Rightarrow> d | Some x \<Rightarrow> x)
      | _ \<Rightarrow> Inl AttributeError)"

text \<open>\<open>py_item v k\<close> is the subscript \<open>v[k]\<close> with a string key.\<close>

definition py_item :: "json \<Rightarrow> string \<Rightarrow> py_error + json" where
  "py_item v k =
     (case v of
        JDict kvs \<Rightarrow> (case map_of kvs k of None \<Rightarrow> Inl (KeyError k) | Some x \<Rightarrow> Inr x)
      | _ \<Rightarrow> Inl TypeError)"

fun truthy :: "json \<Rightarrow> bool" where
  "truthy JNull = False"
| "truthy (JBool b) = b"
| "truthy (JInt n) = (n \<noteq> 0)"
| "truthy (JNum r) = (r \<noteq> 0)"
| "truthy (JNonFinite n) = True"
| "truthy (JStr s) = (s \<noteq> [])"
| "truthy (JList xs) = (xs \<noteq> [])"
| "truthy (JDict kvs) = (kvs \<noteq> [])"

subsection \<open>Strings\<close>

text \<open>
  \<open>lower\<close> is \<open>str.lower()\<close> on the ASCII letters; every other byte is left as it is.
\<close>

definition lower_char :: "char \<Rightarrow> char" where
  "lower_char c =
     (let n = (of_char c :: nat) in if 65 \<le> n \<and> n \<le> 90 then char_of (n + 32) else c)"

definition lower :: "string \<Rightarrow> string" where
  "lower s = map lower_char s"

fun starts_with :: "string \<Rightarrow> string \<Rightarrow> bool" where
  "starts_with s [] = True"
| "starts_with [] (c # cs) = False"
| "starts_with (x # xs) (c # cs) = (x = c \<and> starts_with xs cs)"

text \<open>\<open>contains s sub\<close> is Python's \<open>sub in s\<close>.\<close>

fun contains :: "string \<Rightarrow> string \<Rightarrow> bool" where
  "contains [] sub = (sub = [])"
| "contains (x # xs) sub = (starts_with (x # xs) sub \<or> contains xs sub)"

text \<open>\<open>replace s old new\<close> is \<open>s.replace(old, new)\<close> for a non-empty \<open>old\<close>.\<close>

function replace :: "string \<Rightarrow> string \<Rightarrow> string \<Rightarrow> string" where
  "replace [] old new = []"
| "replace (x # xs) [] new = x # xs"
| "replace (x # xs) (c # cs) new =
     (if starts_with (x # xs) (c # cs)
      then new @ replace (drop (length cs) xs) (c # cs) new
      else x # replace xs (c # cs) new)"
  by pat_completeness auto
termination
  by (relation "measure (\<lambda>(s, old, new). length s)") auto

definition is_space :: "char \<Rightarrow> bool" where
  "is_space c = (let n = (of_char c :: nat) in (9 \<le> n \<and> n \<le> 13) \<or> (28 \<le> n \<and> n \<le> 32))"

definition strip :: "string \<Rightarrow> string" where
  "strip s = rev (dropWhile is_space (rev (dropWhile is_space s)))"

section \<open>The language-model service\<close>

text \<open>
  \<open>llm_enabled\<close> is set when the API key is present. The two oracles stand for the
  remote model: \<open>llm_interpret\<close> is \<open>generate_content\<close> on the interpretation prompt
  followed by \<open>json.loads\<close> of the reply, \<open>llm_sql\<close> is the reply text to the SQL prompt.
\<close>

record llm_service =
  llm_enabled :: bool
  llm_interpret :: "string \<Rightarrow> json option \<Rightarrow> py_error + json"
  llm_sql :: "json \<Rightarrow> py_error + string"

subsection \<open>Keyword fallback interpreter\<close>

definition buffer_500 :: json where
  "buffer_500 = JDict
     [(''operation'', JStr ''buffer''),
      (''parameters'', JDict [(''radius'', JStr ''500''), (''unit'', JStr ''meters'')])]"

definition cafe_filter :: json where
  "cafe_filter = JDict
     [(''type'', JStr ''business''),
      (''attribute'', JStr ''poi_type''),
      (''operator'', JStr ''equals''),
      (''value'', JStr ''cafe''),
      (''unit'', JStr ''category'')]"

definition fallback_interpretation :: "string \<Rightarrow> json" where
  "fallback_interpretation query =
     (let query_lower = lower query;
          spatial_operations =
            (if contains query ''500'' \<and>
                (contains query_lower ''meter'' \<or> contains query_lower ''metro'')
             then [buffer_500] else []);
          filters =
            (if contains query_lower ''coffee'' \<or> contains query_lower ''cafeteria''
             then [cafe_filter] else [])
      in JDict
        [(''query_type'', JStr ''polygon''),
         (''analysis_type'', JStr ''proximity''),
         (''location'', JDict
            [(''city'', if contains query_lower ''porto alegre''
                        then JStr ''Porto Alegre'' else JNull)]),
         (''filters'', JList filters),
         (''spatial_operations'', JList spatial_operations),
         (''output'', JDict
            [(''fields'', JList [JStr ''name'', JStr ''score'', JStr ''geometry'']),
             (''limit'', JInt 50)]),
         (''enrich_with_places'',
            JBool (contains query_lower ''coffee'' \<or> contains query_lower ''restaurant'')),
         (''description'', JStr (''Analysis query: '' @ query))])"

text \<open>The method receives the service object and neither reads nor changes it.\<close>

definition fallback_interpretation_method :: "llm_service \<Rightarrow> string \<Rightarrow> json \<times> llm_service" where
  "fallback_interpretation_method self query = (fallback_interpretation query, self)"

subsection \<open>Interpreter\<close>

definition interpret_query :: "llm_service \<Rightarrow> string \<Rightarrow> json option \<Rightarrow> py_error + json" where
  "interpret_query self query context =
     (if \<not> llm_enabled self
      then Inr (fst (fallback_interpretation_method self query))
      else try_except (llm_interpret self query context)
             (\<lambda>e. Inr (fst (fallback_interpretation_method self query))))"

subsection \<open>SQL generator\<close>

text \<open>
  Library functions of the Python runtime that the services call on arbitrary values:
  \<open>str()\<close> as used by string formatting, \<open>json.dumps\<close>, \<open>json.loads\<close> and \<open>str()\<close> of
  a caught exception.
\<close>

record runtime =
  py_str :: "json \<Rightarrow> string"
  json_dumps :: "json \<Rightarrow> string"
  json_loads :: "string \<Rightarrow> py_error + json"
  str_exc :: "py_error \<Rightarrow> string"

definition sql_template_head :: string where
  "sql_template_head = ''\<newline>        SELECT \<newline>            d.id,\<newline>            d.neighborhood as name,\<newline>            d.population,\<newline>            d.density,\<newline>            ST_AsGeoJSON(d.geom) as geometry,\<newline>            COUNT(poi.id) as nearby_pois\<newline>        FROM demographics d\<newline>        LEFT JOIN points_of_interest poi \<newline>            ON ST_DWithin(d.geom, poi.geom, 500)\<newline>        ''"

definition sql_template_tail :: string where
  "sql_template_tail = ''\<newline>        GROUP BY d.id, d.neighborhood, d.population, d.density, d.geom\<newline>        ORDER BY d.density DESC\<newline>        LIMIT 50;\<newline>        ''"

definition fallback_sql_query :: "runtime \<Rightarrow> json \<Rightarrow> py_error + string" where
  "fallback_sql_query rt interpretation =
     and_then (py_get interpretation ''location'' (JDict [])) (\<lambda>location.
     and_then (py_get location ''city'' JNull) (\<lambda>city.
       let city_filter =
             (if truthy city then ''WHERE city = '' @ [CHR 0x27] @ py_str rt city @ [CHR 0x27]
              else [])
       in Inr (sql_template_head @ city_filter @ sql_template_tail)))"

definition code_fence :: string where
  "code_fence = [CHR 0x60, CHR 0x60, CHR 0x60]"

definition generate_sql_query :: "runtime \<Rightarrow> llm_service \<Rightarrow> json \<Rightarrow> py_error + string" where
  "generate_sql_query rt self interpretation =
     (if \<not> llm_enabled self
      then fallback_sql_query rt interpretation
      else try_except
             (and_then (llm_sql self interpretation) (\<lambda>text.
                Inr (strip (replace (replace (strip text) (code_fence @ ''sql'') []) code_fence []))))
             (\<lambda>e. fallback_sql_query rt interpretation))"

section \<open>The geospatial service\<close>

subsection \<open>Numbers and formatting\<close>

definition digit_char :: "nat \<Rightarrow> char" where
  "digit_char n = char_of (48 + n)"

function str_nat :: "nat \<Rightarrow> string" where
  "str_nat n = (if n < 10 then [digit_char n] else str_nat (n div 10) @ [digit_char (n mod 10)])"
  by pat_completeness auto
termination
  by (relation "measure (\<lambda>n. n)") auto

text \<open>
  \<open>py_round x d\<close> is \<open>round(x, d)\<close> on a float: to the nearest multiple of \<open>10\<^sup>-\<^sup>d\<close>,
  ties to the even one.
\<close>

definition round_half_even :: "rat \<Rightarrow> int" where
  "round_half_even x =
     (let n = \<lfloor>x\<rfloor>; f = x - of_int n
      in if f < 1 / 2 then n else if 1 / 2 < f then n + 1 else if even n then n else n + 1)"

definition py_round :: "rat \<Rightarrow> nat \<Rightarrow> rat" where
  "py_round x d = of_int (round_half_even (x * 10 ^ d)) / 10 ^ d"

subsection \<open>Connection pool\<close>

type_synonym pool_handle = nat
type_synonym connection = nat
type_synonym row = "(string \<times> json) list"

text \<open>
  The database as one call sees it: the outcome of \<open>asyncpg.create_pool\<close>, of acquiring and
  releasing a connection, and of the statements run on it.
\<close>

record database =
  create_pool :: "py_error + pool_handle"
  acquire :: "pool_handle \<Rightarrow> py_error + connection"
  release :: "connection \<Rightarrow> py_error + unit"
  fetch :: "connection \<Rightarrow> string \<Rightarrow> py_error + row list"
  fetchval :: "connection \<Rightarrow> string \<Rightarrow> py_error + json"
  execute :: "connection \<Rightarrow> string \<Rightarrow> py_error + unit"

record geospatial_service =
  pool :: "pool_handle option"

text \<open>
  \<open>get_pool\<close> as one call that runs from its test of \<open>self.pool\<close> to its return with no
  other call in between. The call suspends at \<open>await asyncpg.create_pool(...)\<close>; what
  other calls can do meanwhile is the subject of the interleaved model below, of which this
  definition is the uninterrupted case.
\<close>

definition get_pool ::
  "database \<Rightarrow> geospatial_service \<Rightarrow> (py_error + pool_handle option) \<times> geospatial_service" where
  "get_pool db self =
     (case pool self of
        None \<Rightarrow>
          (case create_pool db of
             Inl e \<Rightarrow> (Inr None, self)
           | Inr p \<Rightarrow> (Inr (Some p), self\<lparr>pool := Some p\<rparr>))
      | Some p \<Rightarrow> (Inr (Some p), self))"

text \<open>\<open>async with pool.acquire() as conn: body\<close>\<close>

definition with_connection ::
  "database \<Rightarrow> pool_handle \<Rightarrow> (connection \<Rightarrow> py_error + 'a) \<Rightarrow> py_error + 'a" where
  "with_connection db p body =
     and_then (acquire db p) (\<lambda>conn.
       case body conn of
         Inl e \<Rightarrow> (case release db conn of Inl e' \<Rightarrow> Inl e' | Inr u \<Rightarrow> Inl e)
       | Inr x \<Rightarrow> and_then (release db conn) (\<lambda>u. Inr x))"

definition check_connection ::
  "runtime \<Rightarrow> database \<Rightarrow> geospatial_service \<Rightarrow> (py_error + string) \<times> geospatial_service" where
  "check_connection rt db self =
     (case get_pool db self of
        (r, self') \<Rightarrow>
          (try_except
             (and_then r (\<lambda>p.
                case p of
                  None \<Rightarrow> Inr ''unhealthy''
                | Some h \<Rightarrow>
                    and_then (with_connection db h (\<lambda>conn. fetchval db conn ''SELECT 1''))
                      (\<lambda>v. Inr ''healthy'')))
             (\<lambda>e. Inr (''unhealthy: '' @ str_exc rt e)),
           self'))"

subsection \<open>Mock data\<close>

definition base_lat :: rat where
  "base_lat = - (300346 / 10000)"

definition base_lng :: rat where
  "base_lng = - (512177 / 10000)"

definition mock_row :: "nat \<Rightarrow> row" where
  "mock_row i =
     (let lat_offset = of_int (int i mod 5 - 2) * (1 / 100);
          lng_offset = of_int (int i div 5 - 1) * (1 / 100);
          lat = base_lat + lat_offset;
          lng = base_lng + lng_offset;
          polygon_coords = JList
            [JList [JNum (lng - 5 / 1000), JNum (lat - 5 / 1000)],
             JList [JNum (lng + 5 / 1000), JNum (lat - 5 / 1000)],
             JList [JNum (lng + 5 / 1000), JNum (lat + 5 / 1000)],
             JList [JNum (lng - 5 / 1000), JNum (lat + 5 / 1000)],
             JList [JNum (lng - 5 / 1000), JNum (lat - 5 / 1000)]]
      in [(''id'', JInt (int i + 1)),
          (''name'', JStr (''Area '' @ str_nat (i + 1))),
          (''score'', JNum (py_round (85 - of_nat i * (35 / 10)) 1)),
          (''population'', JInt (5000 + int i * 500)),
          (''density'', JInt (120 - int i * 5)),
          (''young_population_pct'', JInt (35 + int i * 2)),
          (''competitor_count'', JInt (int i mod 3)),
          (''business_centers_nearby'', JInt (2 + int i mod 4)),
          (''avg_walk_time'', JNum (py_round (5 + of_nat i * (8 / 10)) 1)),
          (''geometry'', JDict
             [(''type'', JStr ''Polygon''), (''coordinates'', JList [polygon_coords])]),
          (''center'', JDict [(''lat'', JNum lat), (''lng'', JNum lng)])])"

text \<open>The sort key \<open>x["score"]\<close>; every mock row carries a float there.\<close>

definition score_key :: "row \<Rightarrow> rat" where
  "score_key r =
     (case map_of r ''score'' of Some (JNum q) \<Rightarrow> q | Some (JInt n) \<Rightarrow> of_int n | _ \<Rightarrow> 0)"

text \<open>
  \<open>sort(key=..., reverse=True)\<close> is stable: rows with equal keys keep their order, as a
  stable ascending sort on the negated key does.
\<close>

definition get_mock_data :: "json \<Rightarrow> row list" where
  "get_mock_data interpretation = sort_key (\<lambda>r. - score_key r) (map mock_row [0..<10])"

subsection \<open>Executor\<close>

definition parse_geometry :: "runtime \<Rightarrow> row \<Rightarrow> row" where
  "parse_geometry rt row_dict =
     (case map_of row_dict ''geometry'' of
        Some (JStr s) \<Rightarrow>
          (case json_loads rt s of
             Inl e \<Rightarrow> row_dict
           | Inr g \<Rightarrow> AList.update ''geometry'' g row_dict)
      | _ \<Rightarrow> row_dict)"

definition execute_query ::
  "runtime \<Rightarrow> database \<Rightarrow> geospatial_service \<Rightarrow> string \<Rightarrow> json
     \<Rightarrow> (py_error + row list) \<times> geospatial_service" where
  "execute_query rt db self sql_query interpretation =
     (case get_pool db self of
        (Inl e, self') \<Rightarrow> (Inl e, self')
      | (Inr None, self') \<Rightarrow> (Inr (get_mock_data interpretation), self')
      | (Inr (Some p), self') \<Rightarrow>
          (try_except
             (with_connection db p (\<lambda>conn.
                and_then (fetch db conn sql_query) (\<lambda>rows.
                  Inr (map (parse_geometry rt) rows))))
             (\<lambda>e. Inr (get_mock_data interpretation)),
           self'))"

subsection \<open>Database initialisation\<close>

definition schema_statements :: "string list" where
  "schema_statements =
     [''CREATE EXTENSION IF NOT EXISTS postgis;'',
      ''\<newline>                CREATE TABLE IF NOT EXISTS demographics (\<newline>                    id SERIAL PRIMARY KEY,\<newline>                    geom GEOMETRY(Polygon, 4326),\<newline>                    city VARCHAR(100),\<newline>                    neighborhood VARCHAR(100),\<newline>                    population INTEGER,\<newline>                    age_group VARCHAR(50),\<newline>                    income_level VARCHAR(50),\<newline>                    density FLOAT,\<newline>                    created_at TIMESTAMP DEFAULT CURRENT_TIMESTAMP\<newline>                );\<newline>            '',
      ''\<newline>                CREATE TABLE IF NOT EXISTS points_of_interest (\<newline>                    id SERIAL PRIMARY KEY,\<newline>                    geom GEOMETRY(Point, 4326),\<newline>                    name VARCHAR(200),\<newline>                    type VARCHAR(100),\<newline>                    category VARCHAR(100),\<newline>                    rating FLOAT,\<newline>                    review_count INTEGER,\<newline>                    created_at TIMESTAMP DEFAULT CURRENT_TIMESTAMP\<newline>                );\<newline>            '',
      ''\<newline>                CREATE TABLE IF NOT EXISTS business_zones (\<newline>                    id SERIAL PRIMARY KEY,\<newline>                    geom GEOMETRY(Polygon, 4326),\<newline>                    name VARCHAR(200),\<newline>                    zone_type VARCHAR(100),\<newline>                    avg_foot_traffic INTEGER,\<newline>                    created_at TIMESTAMP DEFAULT CURRENT_TIMESTAMP\<newline>                );\<newline>            '',
      ''CREATE INDEX IF NOT EXISTS idx_demographics_geom ON demographics USING GIST(geom);'',
      ''CREATE INDEX IF NOT EXISTS idx_poi_geom ON points_of_interest USING GIST(geom);'',
      ''CREATE INDEX IF NOT EXISTS idx_business_geom ON business_zones USING GIST(geom);'']"

fun run_statements :: "database \<Rightarrow> connection \<Rightarrow> string list \<Rightarrow> py_error + unit" where
  "run_statements db conn [] = Inr ()"
| "run_statements db conn (s # ss) =
     (case execute db conn s of Inl e \<Rightarrow> Inl e | Inr u \<Rightarrow> run_statements db conn ss)"

definition initialize_database ::
  "database \<Rightarrow> geospatial_service \<Rightarrow> (py_error + unit) \<times> geospatial_service" where
  "initialize_database db self =
     (case get_pool db self of
        (r, self') \<Rightarrow>
          (and_then r (\<lambda>p.
             case p of
               None \<Rightarrow> Inl (PyException ''Cannot connect to database'')
             | Some h \<Rightarrow> with_connection db h (\<lambda>conn. run_statements db conn schema_statements)),
           self'))"

subsection \<open>Sequences of calls on one service object\<close>

text \<open>
  A fresh service has no pool. A run is a list of calls, each made against the database as
  it is at that moment.
\<close>

definition geospatial_init :: geospatial_service where
  "geospatial_init = \<lparr>pool = None\<rparr>"

datatype geo_call =
    GetPool
  | CheckConnection
  | ExecuteQuery string json
  | InitializeDatabase

fun geo_step :: "runtime \<Rightarrow> database \<Rightarrow> geo_call \<Rightarrow> geospatial_service \<Rightarrow> geospatial_service" where
  "geo_step rt db GetPool self = snd (get_pool db self)"
| "geo_step rt db CheckConnection self = snd (check_connection rt db self)"
| "geo_step rt db (ExecuteQuery sql_query interp) self = snd (execute_query rt db self sql_query interp)"
| "geo_step rt db InitializeDatabase self = snd (initialize_database db self)"

fun geo_run :: "runtime \<Rightarrow> (database \<times> geo_call) list \<Rightarrow> geospatial_service \<Rightarrow> geospatial_service" where
  "geo_run rt [] self = self"
| "geo_run rt ((db, c) # cs) self = geo_run rt cs (geo_step rt db c self)"

subsection \<open>Interleaved calls on the shared service object\<close>

text \<open>
  The handlers share one service object and are coroutines. \<open>get_pool\<close> tests
  \<open>self.pool is None\<close>, then awaits \<open>asyncpg.create_pool\<close>, then assigns \<open>self.pool\<close>:
  between the test and the assignment other calls may run. Every operation of the service
  (\<open>get_pool\<close>, \<open>check_connection\<close>, \<open>execute_query\<close>, \<open>initialize_database\<close>) begins with
  \<open>await self.get_pool()\<close> and never assigns \<open>self.pool\<close> afterwards, so for the pool a
  call goes through three phases: not started, suspended in \<open>create_pool\<close>, and past
  \<open>get_pool\<close> with the value it returned.
\<close>

datatype phase = NotStarted | AwaitingCreate | Returned "pool_handle option"

text \<open>
  One scheduling step of a call. \<open>outcome\<close> is what \<open>create_pool\<close> yields when the call
  is resumed from its await; it is not looked at in the other phases.
\<close>

definition pool_step ::
  "py_error + pool_handle \<Rightarrow> geospatial_service \<Rightarrow> phase \<Rightarrow> geospatial_service \<times> phase" where
  "pool_step outcome self ph =
     (case ph of
        NotStarted \<Rightarrow>
          (case pool self of
             None \<Rightarrow> (self, AwaitingCreate)
           | Some p \<Rightarrow> (self, Returned (Some p)))
      | AwaitingCreate \<Rightarrow>
          (case outcome of
             Inl e \<Rightarrow> (self, Returned None)
           | Inr p \<Rightarrow> (self\<lparr>pool := Some p\<rparr>, Returned (Some p)))
      | Returned r \<Rightarrow> (self, Returned r))"

record service_run =
  shared :: geospatial_service
  calls :: "(geo_call \<times> phase) list"

text \<open>An event \<open>(i, outcome)\<close> lets call number \<open>i\<close> take its next step.\<close>

definition schedule_step :: "nat \<times> (py_error + pool_handle) \<Rightarrow> service_run \<Rightarrow> service_run" where
  "schedule_step ev s =
     (case ev of
        (i, outcome) \<Rightarrow>
          if i < length (calls s)
          then (case calls s ! i of
                  (c, ph) \<Rightarrow>
                    (case pool_step outcome (shared s) ph of
                       (self', ph') \<Rightarrow> s\<lparr>shared := self', calls := (calls s)[i := (c, ph')]\<rparr>))
          else s)"

fun run_schedule :: "(nat \<times> (py_error + pool_handle)) list \<Rightarrow> service_run \<Rightarrow> service_run" where
  "run_schedule [] s = s"
| "run_schedule (ev # evs) s = run_schedule evs (schedule_step ev s)"

section \<open>The maps service\<close>

text \<open>
  \<open>places_nearby\<close> is the client call \<open>client.places_nearby(location, radius, type)\<close> of
  the third-party library.
\<close>

record maps_service =
  maps_enabled :: bool
  places_nearby :: "json \<times> json \<Rightarrow> nat \<Rightarrow> string \<Rightarrow> py_error + json"

text \<open>\<open>v.lower()\<close>: only strings have the method.\<close>

definition py_lower :: "json \<Rightarrow> py_error + string" where
  "py_lower v = (case v of JStr s \<Rightarrow> Inr (lower s) | _ \<Rightarrow> Inl AttributeError)"

text \<open>The items a \<open>for\<close> loop sees: list elements, dictionary keys, characters.\<close>

definition py_iter :: "json \<Rightarrow> py_error + json list" where
  "py_iter v =
     (case v of
        JList xs \<Rightarrow> Inr xs
      | JDict kvs \<Rightarrow> Inr (map (\<lambda>kv. JStr (fst kv)) kvs)
      | JStr s \<Rightarrow> Inr (map (\<lambda>c. JStr [c]) s)
      | _ \<Rightarrow> Inl TypeError)"

text \<open>\<open>v[0]\<close> and \<open>v[:5]\<close>.\<close>

definition py_first :: "json \<Rightarrow> py_error + json" where
  "py_first v =
     (case v of
        JList xs \<Rightarrow> (case xs of [] \<Rightarrow> Inl IndexError | x # rest \<Rightarrow> Inr x)
      | JStr s \<Rightarrow> (case s of [] \<Rightarrow> Inl IndexError | c # rest \<Rightarrow> Inr (JStr [c]))
      | JDict kvs \<Rightarrow> Inl (KeyError ''0'')
      | _ \<Rightarrow> Inl TypeError)"

definition py_take5 :: "json \<Rightarrow> py_error + json list" where
  "py_take5 v =
     (case v of
        JList xs \<Rightarrow> Inr (take 5 xs)
      | JStr s \<Rightarrow> Inr (map (\<lambda>c. JStr [c]) (take 5 s))
      | _ \<Rightarrow> Inl TypeError)"

text \<open>A comprehension or loop whose body may raise: the first exception ends it.\<close>

fun collect :: "('a \<Rightarrow> py_error + 'b) \<Rightarrow> 'a list \<Rightarrow> py_error + 'b list" where
  "collect f [] = Inr []"
| "collect f (x # xs) =
     (case f x of
        Inl e \<Rightarrow> Inl e
      | Inr y \<Rightarrow> (case collect f xs of Inl e \<Rightarrow> Inl e | Inr ys \<Rightarrow> Inr (y # ys)))"

definition type_mapping :: "(string \<times> string) list" where
  "type_mapping =
     [(''cafe'', ''cafe''),
      (''coffee'', ''cafe''),
      (''restaurant'', ''restaurant''),
      (''gym'', ''gym''),
      (''school'', ''school''),
      (''bank'', ''bank''),
      (''hospital'', ''hospital''),
      (''pharmacy'', ''pharmacy''),
      (''park'', ''park'')]"

fun place_types_loop :: "json list \<Rightarrow> string list \<Rightarrow> py_error + string list" where
  "place_types_loop [] place_types = Inr place_types"
| "place_types_loop (filter_item # rest) place_types =
     (case py_get filter_item ''type'' JNull of
        Inl e \<Rightarrow> Inl e
      | Inr t \<Rightarrow>
          if t = JStr ''business''
          then (case and_then (py_get filter_item ''value'' (JStr [])) py_lower of
                  Inl e \<Rightarrow> Inl e
                | Inr v \<Rightarrow>
                    place_types_loop rest
                      (case map_of type_mapping v of
                         None \<Rightarrow> place_types
                       | Some ty \<Rightarrow> place_types @ [ty]))
          else place_types_loop rest place_types)"

definition extract_place_types :: "json \<Rightarrow> py_error + string list" where
  "extract_place_types interpretation =
     and_then (py_get interpretation ''filters'' (JList [])) (\<lambda>filters.
     and_then (py_iter filters) (\<lambda>items.
     and_then (place_types_loop items []) (\<lambda>place_types.
       Inr (if place_types = [] then [''cafe''] else place_types))))"

definition place_summary :: "json \<Rightarrow> py_error + json" where
  "place_summary place =
     and_then (py_get place ''name'' JNull) (\<lambda>name.
     and_then (py_get place ''types'' JNull) (\<lambda>types.
     and_then (if truthy types
               then and_then (py_get place ''types'' (JList [])) py_first
               else Inr (JStr ''unknown'')) (\<lambda>ty.
     and_then (py_get place ''rating'' JNull) (\<lambda>rating.
     and_then (py_get place ''geometry'' (JDict [])) (\<lambda>geometry.
     and_then (py_get geometry ''location'' JNull) (\<lambda>location.
       Inr (JDict [(''name'', name), (''type'', ty), (''rating'', rating),
                   (''location'', location)])))))))"

text \<open>The body of the \<open>try\<close> block: the lookup and the summary of up to five places.\<close>

definition lookup_places :: "maps_service \<Rightarrow> json \<times> json \<Rightarrow> string list \<Rightarrow> py_error + json" where
  "lookup_places self location place_types =
     and_then (places_nearby self location 500
                 (case place_types of [] \<Rightarrow> ''cafe'' | t # rest \<Rightarrow> t)) (\<lambda>places_result.
     and_then (py_get places_result ''results'' (JList [])) (\<lambda>found.
     and_then (py_take5 found) (\<lambda>places.
     and_then (collect place_summary places) (\<lambda>summaries.
       Inr (JList summaries)))))"

definition enrich_row :: "maps_service \<Rightarrow> string list \<Rightarrow> row \<Rightarrow> py_error + row" where
  "enrich_row self place_types result =
     (case map_of result ''center'' of
        None \<Rightarrow> Inr result
      | Some center \<Rightarrow>
          and_then (py_item center ''lat'') (\<lambda>lat.
          and_then (py_item center ''lng'') (\<lambda>lng.
          and_then (try_except (lookup_places self (lat, lng) place_types)
                      (\<lambda>e. Inr (JList []))) (\<lambda>nearby.
            Inr (AList.update ''nearby_places'' nearby result)))))"

definition enrich_with_places :: "maps_service \<Rightarrow> row list \<Rightarrow> json \<Rightarrow> py_error + row list" where
  "enrich_with_places self results interpretation =
     (if \<not> maps_enabled self then Inr results
      else and_then (extract_place_types interpretation) (\<lambda>place_types.
             collect (enrich_row self place_types) results))"

definition enrich_database :: "maps_service \<Rightarrow> py_error + json" where
  "enrich_database self =
     (if \<not> maps_enabled self
      then Inr (JDict [(''error'', JStr ''Google Maps API not configured'')])
      else Inr (JDict
             [(''status'', JStr ''success''),
              (''message'', JStr ''Database enrichment would be performed here''),
              (''note'', JStr ''Implement based on your specific needs and rate limits'')]))"

section \<open>Advanced features\<close>

subsection \<open>Photo analysis: confidence heuristic\<close>

definition certainty_words :: "string list" where
  "certainty_words = [''clearly'', ''definitely'', ''obviously'', ''certainly'']"

definition uncertainty_words :: "string list" where
  "uncertainty_words = [''possibly'', ''might'', ''perhaps'', ''unclear'']"

definition calculate_confidence :: "string \<Rightarrow> rat" where
  "calculate_confidence text =
     (let text_lower = lower text;
          confidence = 5 / 10;
          confidence = foldl (\<lambda>c w. if contains text_lower w then c + 1 / 10 else c)
                         confidence certainty_words;
          confidence = foldl (\<lambda>c w. if contains text_lower w then c - 1 / 10 else c)
                         confidence uncertainty_words
      in max 0 (min 1 confidence))"

subsection \<open>Parsing numbers\<close>

definition is_digit :: "char \<Rightarrow> bool" where
  "is_digit c = (let n = (of_char c :: nat) in 48 \<le> n \<and> n \<le> 57)"

definition digit_value :: "char \<Rightarrow> nat" where
  "digit_value c = of_char c - 48"

definition digits_value :: "string \<Rightarrow> nat" where
  "digits_value ds = foldl (\<lambda>acc c. 10 * acc + digit_value c) 0 ds"

text \<open>
  \<open>int(s)\<close> and \<open>float(s)\<close> on the plain decimal notation: surrounding white space, an
  optional sign, digits, and for \<open>float\<close> an optional fraction. Anything else is a
  \<open>ValueError\<close> here (exponents, underscores, \<open>inf\<close> and \<open>nan\<close> are left out).
\<close>

definition split_sign :: "string \<Rightarrow> bool \<times> string" where
  "split_sign s =
     (case s of
        c # cs \<Rightarrow> if c = CHR ''-'' then (True, cs) else if c = CHR ''+'' then (False, cs) else (False, s)
      | [] \<Rightarrow> (False, s))"

definition py_int :: "string \<Rightarrow> py_error + int" where
  "py_int s =
     (case split_sign (strip s) of
        (neg, ds) \<Rightarrow>
          if ds \<noteq> [] \<and> list_all is_digit ds
          then Inr (if neg then - int (digits_value ds) else int (digits_value ds))
          else Inl ValueError)"

definition py_float :: "string \<Rightarrow> py_error + rat" where
  "py_float s =
     (case split_sign (strip s) of
        (neg, body) \<Rightarrow>
          (let whole = takeWhile is_digit body;
               rest = dropWhile is_digit body;
               frac = (case rest of c # cs \<Rightarrow> if c = CHR ''.'' then cs else rest | [] \<Rightarrow> []);
               ok = (case rest of
                       [] \<Rightarrow> whole \<noteq> []
                     | c # cs \<Rightarrow> c = CHR ''.'' \<and> list_all is_digit cs \<and> (whole \<noteq> [] \<or> cs \<noteq> []));
               v = of_nat (digits_value whole) + of_nat (digits_value frac) / 10 ^ length frac
           in if ok then Inr (if neg then - v else v) else Inl ValueError))"

subsection \<open>Multi-city comparison\<close>

record city_data =
  population :: string
  avg_income :: string
  gdp_per_capita :: string
  competition :: "string option"
  saturation :: "string option"
  growth_rate :: "string option"
  top_neighborhoods :: "string list"
  strengths :: "string list"
  challenges :: "string list"

definition get_city_database :: "(string \<times> city_data) list" where
  "get_city_database =
     [((''S'' @ [CHR 0xEC, CHR 0xB9, CHR 0x9A] @ ''o Paulo''),
        \<lparr>population = ''12.3M'', avg_income = ''R$ 4,200'', gdp_per_capita = ''R$ 58,000'',
         competition = Some ''high'', saturation = Some ''65%'', growth_rate = Some ''1.8%'',
         top_neighborhoods = [''Jardins'', ''Pinheiros'', ''Vila Mariana'', ''Mooca''],
         strengths = [''Largest market'', ''High income'', ''Diverse population''],
         challenges = [''High competition'', ''High costs'', ''Traffic'']\<rparr>),
      (''Rio de Janeiro'',
        \<lparr>population = ''6.7M'', avg_income = ''R$ 3,800'', gdp_per_capita = ''R$ 52,000'',
         competition = Some ''medium-high'', saturation = Some ''55%'', growth_rate = Some ''1.2%'',
         top_neighborhoods = [''Ipanema'', ''Leblon'', ''Barra da Tijuca'', ''Botafogo''],
         strengths = [''Tourism'', ''Beach lifestyle'', ''Culture''],
         challenges = [''Security'', ''Economic volatility'']\<rparr>),
      (''Porto Alegre'',
        \<lparr>population = ''1.4M'', avg_income = ''R$ 3,400'', gdp_per_capita = ''R$ 48,000'',
         competition = Some ''medium'', saturation = Some ''45%'', growth_rate = Some ''2.2%'',
         top_neighborhoods = [''Moinhos de Vento'', ''Bom Fim'', (''Petr'' @ [CHR 0xEC, CHR 0xB9, CHR 0xA9] @ ''polis'')],
         strengths = [''Lower competition'', ''Quality of life'', ''Growing market''],
         challenges = [''Smaller market'', ''Seasonal economy'']\<rparr>),
      (''Curitiba'',
        \<lparr>population = ''1.9M'', avg_income = ''R$ 3,600'', gdp_per_capita = ''R$ 50,000'',
         competition = Some ''medium'', saturation = Some ''48%'', growth_rate = Some ''2.5%'',
         top_neighborhoods = [''Batel'', ([CHR 0xEC, CHR 0xB8, CHR 0xBC] @ ''gua Verde''), (''Centro C'' @ [CHR 0xEC, CHR 0xB9, CHR 0xA4] @ ''vico'')],
         strengths = [''Urban planning'', ''Quality of life'', ''Technology hub''],
         challenges = [''Weather'', ''Conservative market'']\<rparr>),
      (''Belo Horizonte'',
        \<lparr>population = ''2.5M'', avg_income = ''R$ 3,300'', gdp_per_capita = ''R$ 46,000'',
         competition = Some ''medium'', saturation = Some ''50%'', growth_rate = Some ''2.0%'',
         top_neighborhoods = [''Savassi'', ''Lourdes'', (''Funcion'' @ [CHR 0xEC, CHR 0xB9, CHR 0x98] @ ''rios'')],
         strengths = [''Strategic location'', ''Food culture'', ''Universities''],
         challenges = [''Infrastructure'', ''Public transport'']\<rparr>)]"

definition comp_map :: "(string \<times> rat) list" where
  "comp_map = [(''low'', 20), (''medium'', 12), (''medium-high'', 8), (''high'', 5)]"

definition pop_value :: "city_data \<Rightarrow> py_error + rat" where
  "pop_value data = py_float (replace (population data) ''M'' [])"

definition income_value :: "city_data \<Rightarrow> py_error + int" where
  "income_value data = py_int (replace (replace (avg_income data) ''R$ '' []) '','' [])"

definition competition_level :: "city_data \<Rightarrow> string" where
  "competition_level data = (case competition data of None \<Rightarrow> ''medium'' | Some c \<Rightarrow> c)"

definition comp_score :: "city_data \<Rightarrow> rat" where
  "comp_score data = (case map_of comp_map (competition_level data) of None \<Rightarrow> 12 | Some v \<Rightarrow> v)"

definition growth_value :: "city_data \<Rightarrow> py_error + rat" where
  "growth_value data =
     py_float (replace (case growth_rate data of None \<Rightarrow> ''2%'' | Some g \<Rightarrow> g) ''%'' [])"

definition calculate_city_score :: "city_data \<Rightarrow> json \<Rightarrow> string \<Rightarrow> py_error + rat" where
  "calculate_city_score data criteria business_type =
     and_then (pop_value data) (\<lambda>pop.
     and_then (income_value data) (\<lambda>income.
     and_then (growth_value data) (\<lambda>growth.
       let base_score = 50;
           pop_score = min (pop * 3) 20;
           income_score = min (of_int income / 200) 15;
           growth_score = growth * 3;
           total = base_score + pop_score + income_score + comp_score data + growth_score
       in Inr (py_round (min total 100) 1))))"

text \<open>The order of the competition levels: low < medium < medium-high < high.\<close>

definition competition_rank :: "string \<Rightarrow> nat option" where
  "competition_rank c = map_of [(''low'', 0), (''medium'', 1), (''medium-high'', 2), (''high'', 3)] c"

section \<open>The routing service\<close>

subsection \<open>Title case\<close>

definition is_upper :: "char \<Rightarrow> bool" where
  "is_upper c = (let n = (of_char c :: nat) in 65 \<le> n \<and> n \<le> 90)"

definition is_lower :: "char \<Rightarrow> bool" where
  "is_lower c = (let n = (of_char c :: nat) in 97 \<le> n \<and> n \<le> 122)"

definition upper_char :: "char \<Rightarrow> char" where
  "upper_char c = (if is_lower c then char_of ((of_char c :: nat) - 32) else c)"

text \<open>\<open>title_from prev s\<close>: \<open>prev\<close> tells whether the character before \<open>s\<close> is a letter.\<close>

fun title_from :: "bool \<Rightarrow> string \<Rightarrow> string" where
  "title_from prev [] = []"
| "title_from prev (c # cs) =
     (if is_upper c \<or> is_lower c
      then (if prev then lower_char c else upper_char c) # title_from True cs
      else c # title_from False cs)"

definition title :: "string \<Rightarrow> string" where
  "title s = title_from False s"

subsection \<open>Accessibility analysis\<close>

text \<open>
  \<open>routing_enabled\<close> is set when the maps key is present. \<open>live_accessibility\<close> stands for
  the body of the \<open>try\<close> block of \<open>analyze_accessibility\<close>, which queries the Places and
  Directions APIs; whatever it raises is replaced by the mock analysis.
\<close>

type_synonym latlng = "(string \<times> pyfloat) list"

record routing_service =
  routing_enabled :: bool
  live_accessibility :: "latlng \<Rightarrow> string list \<Rightarrow> int option \<Rightarrow> py_error + json"

definition poi_names :: "(string \<times> string) list" where
  "poi_names =
     [(''transit_station'', ''Metro Station''),
      (''hospital'', ''General Hospital''),
      (''school'', ''Public School''),
      (''supermarket'', ''Supermarket''),
      (''pharmacy'', ''Pharmacy'')]"

definition default_poi_types :: "string list" where
  "default_poi_types = [''transit_station'', ''hospital'', ''school'', ''supermarket'', ''pharmacy'']"

text \<open>\<open>location[k]\<close> on a request dictionary of floats.\<close>

definition coord :: "latlng \<Rightarrow> string \<Rightarrow> py_error + pyfloat" where
  "coord location k = (case map_of location k of None \<Rightarrow> Inl (KeyError k) | Some v \<Rightarrow> Inr v)"

text \<open>\<open>duration / max_duration\<close> and \<open>duration <= max_duration\<close>, with \<open>max_duration\<close> possibly \<open>None\<close>.\<close>

definition true_div :: "int \<Rightarrow> int option \<Rightarrow> py_error + rat" where
  "true_div a b =
     (case b of
        None \<Rightarrow> Inl TypeError
      | Some n \<Rightarrow> if n = 0 then Inl ZeroDivisionError else Inr (of_int a / of_int n))"

definition int_le :: "int \<Rightarrow> int option \<Rightarrow> py_error + bool" where
  "int_le a b = (case b of None \<Rightarrow> Inl TypeError | Some n \<Rightarrow> Inr (a \<le> n))"

text \<open>\<open>max(0, x)\<close> for a float \<open>x\<close>: the integer 0 unless \<open>x\<close> is larger.\<close>

definition max_zero :: "rat \<Rightarrow> json" where
  "max_zero x = (if 0 < x then JNum x else JInt 0)"

text \<open>Float arithmetic with the non-finite values: \<open>x + y\<close>, \<open>x / n\<close>, \<open>round(x, d)\<close>.\<close>

fun float_add :: "pyfloat \<Rightarrow> pyfloat \<Rightarrow> pyfloat" where
  "float_add (Finite a) (Finite b) = Finite (a + b)"
| "float_add (NonFinite NaN) y = NonFinite NaN"
| "float_add x (NonFinite NaN) = NonFinite NaN"
| "float_add (NonFinite PosInf) (NonFinite NegInf) = NonFinite NaN"
| "float_add (NonFinite NegInf) (NonFinite PosInf) = NonFinite NaN"
| "float_add (NonFinite n) y = NonFinite n"
| "float_add x (NonFinite n) = NonFinite n"

definition float_div_nat :: "pyfloat \<Rightarrow> nat \<Rightarrow> py_error + pyfloat" where
  "float_div_nat x n =
     (if n = 0 then Inl ZeroDivisionError
      else Inr (case x of Finite a \<Rightarrow> Finite (a / of_nat n) | NonFinite m \<Rightarrow> NonFinite m))"

definition float_round :: "pyfloat \<Rightarrow> nat \<Rightarrow> pyfloat" where
  "float_round x d = (case x of Finite a \<Rightarrow> Finite (py_round a d) | NonFinite m \<Rightarrow> NonFinite m)"

definition float_json :: "pyfloat \<Rightarrow> json" where
  "float_json x = (case x of Finite a \<Rightarrow> JNum a | NonFinite m \<Rightarrow> JNonFinite m)"

definition number_value :: "json \<Rightarrow> py_error + pyfloat" where
  "number_value v =
     (case v of
        JInt n \<Rightarrow> Inr (Finite (of_int n))
      | JNum q \<Rightarrow> Inr (Finite q)
      | JNonFinite m \<Rightarrow> Inr (NonFinite m)
      | _ \<Rightarrow> Inl TypeError)"

definition mock_poi_entry :: "latlng \<Rightarrow> int option \<Rightarrow> nat \<Rightarrow> string \<Rightarrow> py_error + json" where
  "mock_poi_entry location max_duration i poi_type =
     (let duration = 5 + int i * 3
      in and_then (true_div duration max_duration) (\<lambda>ratio.
         and_then (coord location ''lat'') (\<lambda>lat.
         and_then (coord location ''lng'') (\<lambda>lng.
         and_then (int_le duration max_duration) (\<lambda>accessible.
           Inr (JDict
             [(''name'', JStr (case map_of poi_names poi_type of
                                 None \<Rightarrow> title poi_type | Some n \<Rightarrow> n)),
              (''duration_minutes'', JInt duration),
              (''distance_meters'', JInt (duration * 80)),
              (''score'', max_zero (10 - ratio * 10)),
              (''location'', JDict
                 [(''lat'', float_json (float_add lat (Finite (5 / 1000)))),
                  (''lng'', float_json (float_add lng (Finite (5 / 1000))))]),
              (''accessible'', JBool accessible)]))))))"

text \<open>The loop \<open>for i, poi_type in enumerate(poi_types): scores[poi_type] = ...\<close>\<close>

fun mock_scores_loop ::
  "latlng \<Rightarrow> int option \<Rightarrow> nat \<Rightarrow> string list \<Rightarrow> (string \<times> json) list
     \<Rightarrow> py_error + (string \<times> json) list" where
  "mock_scores_loop location max_duration i [] scores = Inr scores"
| "mock_scores_loop location max_duration i (poi_type # rest) scores =
     (case mock_poi_entry location max_duration i poi_type of
        Inl e \<Rightarrow> Inl e
      | Inr entry \<Rightarrow>
          mock_scores_loop location max_duration (Suc i) rest
            (AList.update poi_type entry scores))"

definition mock_accessibility_analysis ::
  "latlng \<Rightarrow> string list \<Rightarrow> int option \<Rightarrow> py_error + json" where
  "mock_accessibility_analysis location poi_types max_duration =
     and_then (mock_scores_loop location max_duration 0 poi_types []) (\<lambda>scores.
     and_then (collect (\<lambda>kv. and_then (py_item (snd kv) ''score'') number_value) scores) (\<lambda>values.
     and_then (float_div_nat (foldl float_add (Finite 0) values) (length scores)) (\<lambda>overall.
         Inr (JDict
              [(''location'', JDict (map (\<lambda>kv. (fst kv, float_json (snd kv))) location)),
               (''accessibility_scores'', JDict scores),
               (''overall_score'', float_json (float_round overall 1)),
               (''max_duration_minutes'',
                  (case max_duration of None \<Rightarrow> JNull | Some n \<Rightarrow> JInt n)),
               (''success'', JBool True),
               (''mock'', JBool True),
               (''note'', JStr ''Enable Google Maps API for real accessibility analysis'')]))))"

definition analyze_accessibility ::
  "routing_service \<Rightarrow> latlng \<Rightarrow> string list option \<Rightarrow> int option \<Rightarrow> py_error + json" where
  "analyze_accessibility self location poi_types max_duration_minutes =
     (let poi_types = (case poi_types of None \<Rightarrow> default_poi_types | Some ts \<Rightarrow> ts)
      in if \<not> routing_enabled self
         then mock_accessibility_analysis location poi_types max_duration_minutes
         else try_except (live_accessibility self location poi_types max_duration_minutes)
                (\<lambda>e. mock_accessibility_analysis location poi_types max_duration_minutes))"

section \<open>HTTP handlers\<close>

record app =
  llm :: llm_service
  geo :: geospatial_service
  maps :: maps_service
  vision_enabled :: bool
  routing :: routing_service

record query_request =
  req_query :: string
  req_context :: "json option"

record query_response =
  resp_query :: string
  resp_interpretation :: string
  resp_sql_query :: string
  resp_results :: "row list"
  resp_visualization_type :: string
  resp_success :: bool
  resp_error :: "string option"

definition determine_visualization_type :: "json \<Rightarrow> row list \<Rightarrow> py_error + string" where
  "determine_visualization_type interpretation results =
     (if results = [] then Inr ''none''
      else
        and_then (and_then (py_get interpretation ''query_type'' (JStr [])) py_lower) (\<lambda>query_type.
        and_then (if contains query_type ''heatmap'' then Inr True
                  else and_then (and_then (py_get interpretation ''analysis_type'' (JStr []))
                                   py_lower) (\<lambda>analysis_type.
                         Inr (contains analysis_type ''density''))) (\<lambda>heat.
          if heat then Inr ''heatmap''
          else if contains query_type ''polygon'' \<or> contains query_type ''area'' then Inr ''polygon''
          else if contains query_type ''route'' \<or> contains query_type ''path'' then Inr ''polyline''
          else Inr ''markers'')))"

text \<open>The \<open>try\<close> block of the \<open>/query\<close> handler; the executor may have created the pool.\<close>

definition process_query_body ::
  "runtime \<Rightarrow> database \<Rightarrow> app \<Rightarrow> query_request \<Rightarrow> (py_error + query_response) \<times> app" where
  "process_query_body rt db ap request =
     (case interpret_query (llm ap) (req_query request) (req_context request) of
        Inl e \<Rightarrow> (Inl e, ap)
      | Inr interpretation \<Rightarrow>
          (case generate_sql_query rt (llm ap) interpretation of
             Inl e \<Rightarrow> (Inl e, ap)
           | Inr sql_query \<Rightarrow>
               (case execute_query rt db (geo ap) sql_query interpretation of
                  (r, geo') \<Rightarrow>
                    (and_then r (\<lambda>results.
                     and_then (py_get interpretation ''enrich_with_places'' JNull) (\<lambda>flag.
                     and_then (if truthy flag
                               then enrich_with_places (maps ap) results interpretation
                               else Inr results) (\<lambda>results.
                     and_then (determine_visualization_type interpretation results) (\<lambda>viz_type.
                       Inr \<lparr>resp_query = req_query request,
                            resp_interpretation = json_dumps rt interpretation,
                            resp_sql_query = sql_query,
                            resp_results = results,
                            resp_visualization_type = viz_type,
                            resp_success = True,
                            resp_error = None\<rparr>)))),
                     ap\<lparr>geo := geo'\<rparr>))))"

definition process_query ::
  "runtime \<Rightarrow> database \<Rightarrow> app \<Rightarrow> query_request \<Rightarrow> (py_error + query_response) \<times> app" where
  "process_query rt db ap request =
     (case process_query_body rt db ap request of
        (r, ap') \<Rightarrow>
          (try_except r (\<lambda>e.
             Inr \<lparr>resp_query = req_query request,
                  resp_interpretation = [],
                  resp_sql_query = [],
                  resp_results = [],
                  resp_visualization_type = ''error'',
                  resp_success = False,
                  resp_error = Some (str_exc rt e)\<rparr>),
           ap'))"

definition status_of :: "bool \<Rightarrow> json" where
  "status_of enabled = JStr (if enabled then ''healthy'' else ''disabled'')"

definition health_check :: "runtime \<Rightarrow> database \<Rightarrow> app \<Rightarrow> (py_error + json) \<times> app" where
  "health_check rt db ap =
     (case check_connection rt db (geo ap) of
        (r, geo') \<Rightarrow>
          (and_then r (\<lambda>database_status.
             Inr (JDict
               [(''api'', JStr ''healthy''),
                (''database'', JStr database_status),
                (''llm'', status_of (llm_enabled (llm ap))),
                (''maps'', status_of (maps_enabled (maps ap))),
                (''vision'', status_of (vision_enabled ap)),
                (''routing'', status_of (routing_enabled (routing ap))),
                (''advanced_features'', JStr ''healthy'')])),
           ap\<lparr>geo := geo'\<rparr>))"

text \<open>Handlers of the form \<open>try: return ... except Exception as e: raise HTTPException(500, str(e))\<close>\<close>

definition or_http_500 :: "runtime \<Rightarrow> py_error + 'a \<Rightarrow> py_error + 'a" where
  "or_http_500 rt body = try_except body (\<lambda>e. Inl (HTTPException 500 (str_exc rt e)))"

definition enrich_data :: "runtime \<Rightarrow> app \<Rightarrow> py_error + json" where
  "enrich_data rt ap =
     or_http_500 rt
       (and_then (enrich_database (maps ap)) (\<lambda>result.
          Inr (JDict [(''success'', JBool True), (''result'', result)])))"

record accessibility_request =
  acc_location :: latlng
  acc_poi_types :: "string list option"
  acc_max_duration_minutes :: "int option"

definition analyze_location_accessibility ::
  "runtime \<Rightarrow> app \<Rightarrow> accessibility_request \<Rightarrow> py_error + json" where
  "analyze_location_accessibility rt ap request =
     or_http_500 rt
       (analyze_accessibility (routing ap) (acc_location request) (acc_poi_types request)
          (acc_max_duration_minutes request))"

subsection \<open>From a handler's result to the HTTP answer\<close>

text \<open>
  The framework renders a returned dictionary as JSON and refuses the non-finite floats: a
  \<open>nan\<close> or \<open>inf\<close> anywhere in the payload ends in a server error. An \<open>HTTPException\<close>
  becomes an answer with its status code and detail, any other exception a server error.
\<close>

fun serialisable :: "json \<Rightarrow> bool" where
  "serialisable (JNonFinite n) = False"
| "serialisable (JList xs) = list_all serialisable xs"
| "serialisable (JDict kvs) = list_all serialisable (map snd kvs)"
| "serialisable v = True"

datatype http_response = Http nat json

definition respond :: "py_error + json \<Rightarrow> http_response" where
  "respond r =
     (case r of
        Inl e \<Rightarrow>
          (case e of
             HTTPException code detail \<Rightarrow> Http code (JDict [(''detail'', JStr detail)])
           | _ \<Rightarrow> Http 500 (JStr ''Internal Server Error''))
      | Inr v \<Rightarrow>
          if serialisable v then Http 200 v else Http 500 (JStr ''Internal Server Error''))"

definition health_endpoint :: "runtime \<Rightarrow> database \<Rightarrow> app \<Rightarrow> http_response \<times> app" where
  "health_endpoint rt db ap = (case health_check rt db ap of (r, ap') \<Rightarrow> (respond r, ap'))"

definition enrich_data_endpoint :: "runtime \<Rightarrow> app \<Rightarrow> http_response" where
  "enrich_data_endpoint rt ap = respond (enrich_data rt ap)"

definition accessibility_endpoint :: "runtime \<Rightarrow> app \<Rightarrow> accessibility_request \<Rightarrow> http_response" where
  "accessibility_endpoint rt ap request = respond (analyze_location_accessibility rt ap request)"

section \<open>Sample inputs\<close>

definition coffee_query :: string where
  "coffee_query = ''Show me areas with high potential for coffee shops''"

definition buffer_query :: string where
  "buffer_query = ''Coffee shops with no competitors within 500 Meters''"

definition unconfigured_llm :: llm_service where
  "unconfigured_llm =
     \<lparr>llm_enabled = False,
      llm_interpret = (\<lambda>q c. Inl (PyException ''no model'')),
      llm_sql = (\<lambda>i. Inl (PyException ''no model''))\<rparr>"

definition plain_runtime :: runtime where
  "plain_runtime =
     \<lparr>py_str = (\<lambda>v. case v of JStr s \<Rightarrow> s | _ \<Rightarrow> ''?''),
      json_dumps = (\<lambda>v. ''{}''),
      json_loads = (\<lambda>s. Inl ValueError),
      str_exc = (\<lambda>e. case e of
                       PyException m \<Rightarrow> m
                     | KeyError k \<Rightarrow> k
                     | ZeroDivisionError \<Rightarrow> ''division by zero''
                     | _ \<Rightarrow> ''error'')\<rparr>"

text \<open>A database that refuses every connection, and one that serves a single row.\<close>

definition unreachable_db :: database where
  "unreachable_db =
     \<lparr>create_pool = Inl (PyException ''connection refused''),
      acquire = (\<lambda>p. Inl (PyException ''connection refused'')),
      release = (\<lambda>c. Inr ()),
      fetch = (\<lambda>c q. Inl (PyException ''connection refused'')),
      fetchval = (\<lambda>c q. Inl (PyException ''connection refused'')),
      execute = (\<lambda>c q. Inl (PyException ''connection refused''))\<rparr>"

definition live_db :: database where
  "live_db =
     \<lparr>create_pool = Inr 7,
      acquire = (\<lambda>p. Inr 1),
      release = (\<lambda>c. Inr ()),
      fetch = (\<lambda>c q. Inr [ [(''id'', JInt 1), (''geometry'', JStr ''{}'')]]),
      fetchval = (\<lambda>c q. Inr (JInt 1)),
      execute = (\<lambda>c q. Inr ())\<rparr>"

definition pooled_service :: geospatial_service where
  "pooled_service = geo_run plain_runtime [(live_db, GetPool)] geospatial_init"

definition later_calls :: "(database \<times> geo_call) list" where
  "later_calls =
     [(unreachable_db, ExecuteQuery ''SELECT 1'' JNull),
      (unreachable_db, CheckConnection),
      (live_db, InitializeDatabase),
      (unreachable_db, GetPool)]"

text \<open>The Porto Alegre entry of the city table, and three variants of it.\<close>

definition porto_alegre_data :: city_data where
  "porto_alegre_data = snd (get_city_database ! 2)"

definition larger_city :: city_data where
  "larger_city = porto_alegre_data\<lparr>population := ''1.9M''\<rparr>"

definition poorer_city :: city_data where
  "poorer_city = porto_alegre_data\<lparr>avg_income := ''R$ 2,400''\<rparr>"

definition contested_city :: city_data where
  "contested_city = porto_alegre_data\<lparr>competition := Some ''high''\<rparr>"

text \<open>A maps service with a key, whose lookups succeed with no place found.\<close>

definition live_maps :: maps_service where
  "live_maps = \<lparr>maps_enabled = True, places_nearby = (\<lambda>loc radius ty. Inr (JDict []))\<rparr>"

definition row_without_coordinates :: row where
  "row_without_coordinates = [(''id'', JInt 1), (''center'', JDict [])]"

definition numeric_filter_interpretation :: json where
  "numeric_filter_interpretation =
     JDict [(''filters'', JList [JDict [(''type'', JStr ''business''), (''value'', JInt 500)]])]"

text \<open>The application with no key configured, and requests to it.\<close>

definition unconfigured_app :: app where
  "unconfigured_app =
     \<lparr>llm = unconfigured_llm,
      geo = geospatial_init,
      maps = \<lparr>maps_enabled = False,
              places_nearby = (\<lambda>loc radius ty. Inl (PyException ''no client''))\<rparr>,
      vision_enabled = False,
      routing = \<lparr>routing_enabled = False,
                 live_accessibility = (\<lambda>loc tys m. Inl (PyException ''no client''))\<rparr>\<rparr>"

definition coffee_request :: query_request where
  "coffee_request = \<lparr>req_query = coffee_query, req_context = None\<rparr>"

definition empty_poi_request :: accessibility_request where
  "empty_poi_request =
     \<lparr>acc_location = [(''lat'', Finite (- (300346 / 10000))),
                       (''lng'', Finite (- (512177 / 10000)))],
      acc_poi_types = Some [],
      acc_max_duration_minutes = Some 15\<rparr>"

definition default_poi_request :: accessibility_request where
  "default_poi_request =
     \<lparr>acc_location = [(''lat'', Finite (- (300346 / 10000))),
                       (''lng'', Finite (- (512177 / 10000)))],
      acc_poi_types = None,
      acc_max_duration_minutes = Some 15\<rparr>"

definition nan_latitude_request :: accessibility_request where
  "nan_latitude_request =
     \<lparr>acc_location = [(''lat'', NonFinite NaN), (''lng'', Finite (- (512177 / 10000)))],
      acc_poi_types = None,
      acc_max_duration_minutes = Some 15\<rparr>"

text \<open>Two first requests arriving together, and three of which one has finished.\<close>

definition two_first_requests :: service_run where
  "two_first_requests =
     \<lparr>shared = geospatial_init,
      calls = [(ExecuteQuery ''SELECT 1'' JNull, NotStarted), (CheckConnection, NotStarted)]\<rparr>"

definition racing_schedule :: "(nat \<times> (py_error + pool_handle)) list" where
  "racing_schedule = [(0, Inr 7), (1, Inr 8), (0, Inr 7), (1, Inr 8)]"

definition settled_run :: service_run where
  "settled_run =
     run_schedule [(0, Inr 7), (0, Inr 7)]
       \<lparr>shared = geospatial_init,
        calls = [(GetPool, NotStarted), (ExecuteQuery ''SELECT 1'' JNull, NotStarted),
                 (CheckConnection, NotStarted)]\<rparr>"

definition later_schedule :: "(nat \<times> (py_error + pool_handle)) list" where
  "later_schedule =
     [(1, Inr 8), (2, Inl (PyException ''connection refused'')), (1, Inr 8), (0, Inr 5),
      (2, Inr 9)]"

section \<open>Properties of the keyword fallback interpreter\<close>

lemma interpret_query_disabled:
  "\<not> llm_enabled self \<Longrightarrow> interpret_query self query ctx = Inr (fallback_interpretation query)"
  by (simp add: interpret_query_def fallback_interpretation_method_def)

lemma coffee_fallback:
  "fallback_interpretation coffee_query =
   JDict
     [(''query_type'', JStr ''polygon''),
      (''analysis_type'', JStr ''proximity''),
      (''location'', JDict [(''city'', JNull)]),
      (''filters'', JList [cafe_filter]),
      (''spatial_operations'', JList []),
      (''output'', JDict
         [(''fields'', JList [JStr ''name'', JStr ''score'', JStr ''geometry'']),
          (''limit'', JInt 50)]),
      (''enrich_with_places'', JBool True),
      (''description'', JStr (''Analysis query: '' @ coffee_query))]"
  by code_simp

text \<open>
  Claim C5. Without an API key, interpreting the literal query
  "Show me areas with high potential for coffee shops" gives an interpretation whose
  \<open>enrich_with_places\<close> is true and whose \<open>filters\<close> list holds a filter with value
  \<open>cafe\<close> (the category filter).
\<close>

theorem coffee_shops_query_unconfigured:
  assumes "\<not> llm_enabled self"
  shows "\<exists>interp filters f.
           interpret_query self ''Show me areas with high potential for coffee shops'' ctx
             = Inr interp \<and>
           py_item interp ''enrich_with_places'' = Inr (JBool True) \<and>
           py_item interp ''filters'' = Inr (JList filters) \<and>
           JDict f \<in> set filters \<and>
           map_of f ''value'' = Some (JStr ''cafe'') \<and>
           map_of f ''unit'' = Some (JStr ''category'')"
proof -
  have "interpret_query self coffee_query ctx = Inr (fallback_interpretation coffee_query)"
    using assms by (rule interpret_query_disabled)
  then show ?thesis
    unfolding coffee_fallback
    by (simp add: coffee_query_def py_item_def cafe_filter_def)
qed

theorem coffee_shops_query_unconfigured_witness:
  "\<not> llm_enabled unconfigured_llm \<and>
   (\<exists>interp filters f.
      interpret_query unconfigured_llm ''Show me areas with high potential for coffee shops'' None
        = Inr interp \<and>
      py_item interp ''enrich_with_places'' = Inr (JBool True) \<and>
      py_item interp ''filters'' = Inr (JList filters) \<and>
      JDict f \<in> set filters \<and>
      map_of f ''value'' = Some (JStr ''cafe'') \<and>
      map_of f ''unit'' = Some (JStr ''category''))"
proof -
  have h: "\<not> llm_enabled unconfigured_llm"
    by (simp add: unconfigured_llm_def)
  show ?thesis
    using h coffee_shops_query_unconfigured [OF h, of None] by blast
qed

lemma fallback_fields:
  "py_item (fallback_interpretation query) ''spatial_operations'' =
     Inr (JList (if contains query ''500'' \<and>
                    (contains (lower query) ''meter'' \<or> contains (lower query) ''metro'')
                 then [buffer_500] else []))"
  "py_item (fallback_interpretation query) ''filters'' =
     Inr (JList (if contains (lower query) ''coffee'' \<or> contains (lower query) ''cafeteria''
                 then [cafe_filter] else []))"
  "py_item (fallback_interpretation query) ''enrich_with_places'' =
     Inr (JBool (contains (lower query) ''coffee'' \<or> contains (lower query) ''restaurant''))"
  by (simp_all add: fallback_interpretation_def py_item_def Let_def)

text \<open>
  Claim C7. A query whose raw text contains "500" and whose lower-cased text contains
  "meter" gets a buffer operation with radius "500" and unit "meters" in
  \<open>spatial_operations\<close>; a query whose lower-cased text contains "coffee" gets a category
  filter in \<open>filters\<close>.
\<close>

theorem fallback_buffer_and_category:
  "(contains query ''500'' \<and> contains (lower query) ''meter'' \<longrightarrow>
      (\<exists>ops. py_item (fallback_interpretation query) ''spatial_operations'' = Inr (JList ops) \<and>
         JDict [(''operation'', JStr ''buffer''),
                (''parameters'', JDict [(''radius'', JStr ''500''), (''unit'', JStr ''meters'')])]
           \<in> set ops)) \<and>
   (contains (lower query) ''coffee'' \<longrightarrow>
      (\<exists>filters f. py_item (fallback_interpretation query) ''filters'' = Inr (JList filters) \<and>
         JDict f \<in> set filters \<and>
         map_of f ''unit'' = Some (JStr ''category'') \<and>
         map_of f ''attribute'' = Some (JStr ''poi_type'')))"
  by (simp add: fallback_fields buffer_500_def cafe_filter_def)

theorem fallback_buffer_and_category_witness:
  "contains buffer_query ''500'' \<and> contains (lower buffer_query) ''meter'' \<and>
   contains (lower buffer_query) ''coffee'' \<and>
   (\<exists>ops. py_item (fallback_interpretation buffer_query) ''spatial_operations'' = Inr (JList ops) \<and>
      JDict [(''operation'', JStr ''buffer''),
             (''parameters'', JDict [(''radius'', JStr ''500''), (''unit'', JStr ''meters'')])]
        \<in> set ops) \<and>
   (\<exists>filters f. py_item (fallback_interpretation buffer_query) ''filters'' = Inr (JList filters) \<and>
      JDict f \<in> set filters \<and>
      map_of f ''unit'' = Some (JStr ''category'') \<and>
      map_of f ''attribute'' = Some (JStr ''poi_type''))"
proof -
  have h1: "contains buffer_query ''500''" by code_simp
  have h2: "contains (lower buffer_query) ''meter''" by code_simp
  have h3: "contains (lower buffer_query) ''coffee''" by code_simp
  show ?thesis
    using h1 h2 h3 fallback_buffer_and_category [of buffer_query] by blast
qed

text \<open>
  Claim C8. The fallback interpreter is deterministic: a second run on the same text, on
  the service object the first run left behind, gives the same interpretation; the result
  does not depend on the service object, and the object is left as it was.
\<close>

theorem fallback_interpretation_deterministic:
  "fst (fallback_interpretation_method self query) =
     fst (fallback_interpretation_method (snd (fallback_interpretation_method self query)) query) \<and>
   fst (fallback_interpretation_method self query) =
     fst (fallback_interpretation_method other query) \<and>
   snd (fallback_interpretation_method self query) = self"
  by (simp add: fallback_interpretation_method_def)

section \<open>Properties of the mock data generator\<close>

lemma get_mock_data_const: "get_mock_data interp = get_mock_data JNull"
  by (simp add: get_mock_data_def)

lemma mock_scores:
  "map score_key (get_mock_data JNull) =
   [85, 163 / 2, 78, 149 / 2, 71, 135 / 2, 64, 121 / 2, 57, 107 / 2]"
  by code_simp

lemma mock_score_fields_key:
  "map (\<lambda>r. map_of r ''score'') (get_mock_data JNull) =
   map (\<lambda>r. Some (JNum (score_key r))) (get_mock_data JNull)"
  by code_simp

lemma mock_length: "length (get_mock_data interp) = 10"
  by (simp add: get_mock_data_def)

lemma mock_sorted_strict:
  "sorted_wrt (\<lambda>a b. score_key b < score_key a) (get_mock_data interp)"
proof -
  have "sorted_wrt (\<lambda>x y. y < x) (map score_key (get_mock_data JNull))"
    unfolding mock_scores by simp
  then show ?thesis
    unfolding sorted_wrt_map get_mock_data_const [of interp] .
qed

lemma mock_centers:
  "map (\<lambda>r. map_of r ''center'') (get_mock_data JNull) =
   map (\<lambda>i. Some (JDict
          [(''lat'', JNum (base_lat + of_int (int i mod 5 - 2) / 100)),
           (''lng'', JNum (base_lng + of_int (int i div 5 - 1) / 100))])) [0..<10]"
  by code_simp

text \<open>
  Claim C4. For every interpretation the mock generator returns exactly 10 rows, and the
  rows are in descending order of their \<open>score\<close> field (strictly, hence also weakly);
  the sort key is the float stored under \<open>score\<close>.
\<close>

theorem get_mock_data_ten_rows_descending:
  "length (get_mock_data interp) = 10 \<and>
   sorted_wrt (\<lambda>a b. score_key b < score_key a) (get_mock_data interp) \<and>
   sorted_wrt (\<lambda>a b. score_key b \<le> score_key a) (get_mock_data interp) \<and>
   map (\<lambda>r. map_of r ''score'') (get_mock_data interp) =
     map (\<lambda>r. Some (JNum (score_key r))) (get_mock_data interp)"
proof -
  have strict: "sorted_wrt (\<lambda>a b. score_key b < score_key a) (get_mock_data interp)"
    by (rule mock_sorted_strict)
  have weak: "sorted_wrt (\<lambda>a b. score_key b \<le> score_key a) (get_mock_data interp)"
    by (rule sorted_wrt_mono_rel [OF _ strict]) simp
  have fields: "map (\<lambda>r. map_of r ''score'') (get_mock_data interp) =
     map (\<lambda>r. Some (JNum (score_key r))) (get_mock_data interp)"
    unfolding get_mock_data_const [of interp] by (rule mock_score_fields_key)
  show ?thesis using mock_length strict weak fields by blast
qed

section \<open>Properties of the connection pool\<close>

lemma get_pool_existing: "pool self = Some p \<Longrightarrow> get_pool db self = (Inr (Some p), self)"
  by (simp add: get_pool_def)

lemma get_pool_cases:
  "get_pool db self =
     (if pool self = None
      then (case create_pool db of
              Inl e \<Rightarrow> (Inr None, self)
            | Inr p \<Rightarrow> (Inr (Some p), self\<lparr>pool := Some p\<rparr>))
      else (Inr (pool self), self))"
  by (auto simp: get_pool_def split: option.splits)

lemma get_pool_returns_field: "fst (get_pool db self) = Inr (pool (snd (get_pool db self)))"
  by (simp add: get_pool_def split: option.splits sum.splits)

lemma check_connection_state: "snd (check_connection rt db self) = snd (get_pool db self)"
  by (simp add: check_connection_def split: prod.splits)

lemma execute_query_state:
  "snd (execute_query rt db self sql_query interp) = snd (get_pool db self)"
  by (simp add: execute_query_def split: prod.splits sum.splits option.splits)

lemma initialize_database_state: "snd (initialize_database db self) = snd (get_pool db self)"
  by (simp add: initialize_database_def split: prod.splits)

lemma geo_step_state: "geo_step rt db c self = snd (get_pool db self)"
  by (cases c) (simp_all add: check_connection_state execute_query_state initialize_database_state)

lemma geo_step_keeps_pool: "pool self = Some p \<Longrightarrow> geo_step rt db c self = self"
  by (simp add: geo_step_state get_pool_existing)

lemma geo_run_keeps_pool: "pool self = Some p \<Longrightarrow> geo_run rt cs self = self"
proof (induction cs arbitrary: self)
  case Nil
  then show ?case by simp
next
  case (Cons a cs)
  obtain db c where a: "a = (db, c)" by (cases a)
  from Cons.prems have "geo_step rt db c self = self" by (rule geo_step_keeps_pool)
  with Cons show ?case by (simp add: a)
qed

lemma sequential_calls_keep_pool:
  assumes "pool self = Some p"
  shows "get_pool db self = (Inr (Some p), self) \<and>
         snd (execute_query rt db self sql_query interp) = self \<and>
         snd (check_connection rt db self) = self \<and>
         snd (initialize_database db self) = self \<and>
         pool (geo_run rt cs self) = Some p \<and>
         fst (get_pool db (geo_run rt cs self)) = Inr (Some p)"
proof -
  have g: "get_pool db self = (Inr (Some p), self)"
    using assms by (rule get_pool_existing)
  have r: "geo_run rt cs self = self"
    using assms by (rule geo_run_keeps_pool)
  show ?thesis
    by (simp add: g r assms execute_query_state check_connection_state initialize_database_state)
qed

lemma pooled_service_pool: "pool pooled_service = Some 7"
  by (simp add: pooled_service_def geospatial_init_def live_db_def get_pool_def)

subsection \<open>Interleaved calls\<close>

text \<open>An uninterrupted \<open>get_pool\<close> is the test step followed at once by the resumption.\<close>

lemma get_pool_as_steps:
  "get_pool db self =
     (case pool_step (create_pool db) self NotStarted of
        (s1, ph1) \<Rightarrow>
          (case pool_step (create_pool db) s1 ph1 of
             (s2, ph2) \<Rightarrow> (Inr (case ph2 of Returned r \<Rightarrow> r | _ \<Rightarrow> None), s2)))"
  by (simp add: get_pool_def pool_step_def split: option.splits sum.splits)

lemma pool_step_keeps_some:
  "pool self = Some p \<Longrightarrow> \<exists>q. pool (fst (pool_step outcome self ph)) = Some q"
  by (cases ph; cases outcome) (simp_all add: pool_step_def)

lemma schedule_step_keeps_some:
  assumes "pool (shared s) = Some p"
  shows "\<exists>q. pool (shared (schedule_step ev s)) = Some q"
proof -
  obtain i outcome where ev: "ev = (i, outcome)" by (cases ev)
  show ?thesis
  proof (cases "i < length (calls s)")
    case True
    obtain c ph where cp: "calls s ! i = (c, ph)" by (cases "calls s ! i")
    obtain self' ph' where st: "pool_step outcome (shared s) ph = (self', ph')"
      by (cases "pool_step outcome (shared s) ph")
    from pool_step_keeps_some [OF assms, of outcome ph] st
    have "\<exists>q. pool self' = Some q" by simp
    then show ?thesis using True by (simp add: schedule_step_def ev cp st)
  next
    case False
    then show ?thesis using assms by (simp add: schedule_step_def ev)
  qed
qed

lemma run_schedule_keeps_some:
  "pool (shared s) = Some p \<Longrightarrow> \<exists>q. pool (shared (run_schedule sched s)) = Some q"
proof (induction sched arbitrary: s p)
  case Nil
  then show ?case by simp
next
  case (Cons ev sched)
  from schedule_step_keeps_some [OF Cons.prems, of ev]
  obtain q where "pool (shared (schedule_step ev s)) = Some q" by blast
  from Cons.IH [OF this] show ?case by simp
qed

text \<open>
  With a pool in place and no call suspended in \<open>create_pool\<close>, a step changes nothing on
  the service object; the call that steps either stays where it is or passes from
  not started to returned with that pool.
\<close>

lemma pool_step_settled:
  assumes "pool self = Some p" and "ph \<noteq> AwaitingCreate"
  shows "fst (pool_step outcome self ph) = self \<and>
         snd (pool_step outcome self ph) \<noteq> AwaitingCreate \<and>
         (snd (pool_step outcome self ph) = ph \<or>
          (ph = NotStarted \<and> snd (pool_step outcome self ph) = Returned (Some p)))"
  using assms by (cases ph) (simp_all add: pool_step_def)

lemma schedule_step_settled:
  assumes "pool (shared s) = Some p" and "AwaitingCreate \<notin> snd ` set (calls s)"
  shows "shared (schedule_step ev s) = shared s \<and>
         AwaitingCreate \<notin> snd ` set (calls (schedule_step ev s)) \<and>
         length (calls (schedule_step ev s)) = length (calls s) \<and>
         (\<forall>k < length (calls s).
            snd (calls (schedule_step ev s) ! k) = snd (calls s ! k) \<or>
            (snd (calls s ! k) = NotStarted \<and>
             snd (calls (schedule_step ev s) ! k) = Returned (Some p)))"
proof -
  obtain i outcome where ev: "ev = (i, outcome)" by (cases ev)
  show ?thesis
  proof (cases "i < length (calls s)")
    case False
    then show ?thesis using assms by (simp add: schedule_step_def ev)
  next
    case True
    obtain c ph where cp: "calls s ! i = (c, ph)" by (cases "calls s ! i")
    have "(c, ph) \<in> set (calls s)" using True cp nth_mem by metis
    then have ph: "ph \<noteq> AwaitingCreate" using assms(2) by force
    obtain self' ph' where st: "pool_step outcome (shared s) ph = (self', ph')"
      by (cases "pool_step outcome (shared s) ph")
    from pool_step_settled [OF assms(1) ph, of outcome] st
    have self': "self' = shared s" and ph': "ph' \<noteq> AwaitingCreate"
      and rel: "ph' = ph \<or> (ph = NotStarted \<and> ph' = Returned (Some p))"
      by simp_all
    have step: "schedule_step ev s = s\<lparr>shared := shared s, calls := (calls s)[i := (c, ph')]\<rparr>"
      using True by (simp add: schedule_step_def ev cp st self')
    have "set ((calls s)[i := (c, ph')]) \<subseteq> insert (c, ph') (set (calls s))"
      by (rule set_update_subset_insert)
    then have none: "AwaitingCreate \<notin> snd ` set ((calls s)[i := (c, ph')])"
      using assms(2) ph' by force
    have each: "snd ((calls s)[i := (c, ph')] ! k) = snd (calls s ! k) \<or>
            (snd (calls s ! k) = NotStarted \<and>
             snd ((calls s)[i := (c, ph')] ! k) = Returned (Some p))"
      if "k < length (calls s)" for k
      using that rel cp by (cases "k = i") simp_all
    show ?thesis
      using none each by (simp add: step)
  qed
qed

lemma run_schedule_settled:
  assumes "pool (shared s) = Some p" and "AwaitingCreate \<notin> snd ` set (calls s)"
  shows "shared (run_schedule sched s) = shared s \<and>
         AwaitingCreate \<notin> snd ` set (calls (run_schedule sched s)) \<and>
         length (calls (run_schedule sched s)) = length (calls s) \<and>
         (\<forall>k < length (calls s).
            snd (calls (run_schedule sched s) ! k) = snd (calls s ! k) \<or>
            (snd (calls s ! k) = NotStarted \<and>
             snd (calls (run_schedule sched s) ! k) = Returned (Some p)))"
  using assms
proof (induction sched arbitrary: s)
  case Nil
  then show ?case by simp
next
  case (Cons ev sched)
  let ?t = "schedule_step ev s"
  have one: "shared ?t = shared s" "AwaitingCreate \<notin> snd ` set (calls ?t)"
    "length (calls ?t) = length (calls s)"
    "\<forall>k < length (calls s).
            snd (calls ?t ! k) = snd (calls s ! k) \<or>
            (snd (calls s ! k) = NotStarted \<and> snd (calls ?t ! k) = Returned (Some p))"
    using schedule_step_settled [OF Cons.prems, of ev] by blast+
  have pool_t: "pool (shared ?t) = Some p"
    using one(1) Cons.prems(1) by simp
  have rest: "shared (run_schedule sched ?t) = shared ?t"
    "AwaitingCreate \<notin> snd ` set (calls (run_schedule sched ?t))"
    "length (calls (run_schedule sched ?t)) = length (calls ?t)"
    "\<forall>k < length (calls ?t).
            snd (calls (run_schedule sched ?t) ! k) = snd (calls ?t ! k) \<or>
            (snd (calls ?t ! k) = NotStarted \<and>
             snd (calls (run_schedule sched ?t) ! k) = Returned (Some p))"
    using Cons.IH [OF pool_t one(2)] by blast+
  have each: "snd (calls (run_schedule sched ?t) ! k) = snd (calls s ! k) \<or>
            (snd (calls s ! k) = NotStarted \<and>
             snd (calls (run_schedule sched ?t) ! k) = Returned (Some p))"
    if "k < length (calls s)" for k
  proof -
    from that one(3) have k: "k < length (calls ?t)" by simp
    from one(4) that rest(4) k show ?thesis by metis
  qed
  show ?case
    using one(1,3) rest(1,2,3) each by simp
qed

text \<open>
  Claim C9 (fails as stated). Two first calls that interleave at the await of
  \<open>create_pool\<close> each create a pool: the service holds pool 7 when the first one returns,
  and the second one, resumed later, replaces it by pool 8.
\<close>

theorem interleaved_first_calls_create_two_pools:
  "pool (shared two_first_requests) = None \<and>
   pool (shared (run_schedule (take 3 racing_schedule) two_first_requests)) = Some 7 \<and>
   pool (shared (run_schedule racing_schedule two_first_requests)) = Some 8 \<and>
   map snd (calls (run_schedule racing_schedule two_first_requests)) =
     [Returned (Some 7), Returned (Some 8)]"
  by code_simp

text \<open>
  Claim C9, amended. Once the service holds a pool, no interleaving of calls sets it back to
  \<open>None\<close>. If moreover no call is suspended in \<open>create_pool\<close>, as is always so when calls
  run one after another, then every further step leaves the service object as it is, no
  call enters \<open>create_pool\<close> again, and a call that had not started either has still not
  started or has returned from \<open>get_pool\<close> with that same pool. An uninterrupted
  \<open>get_pool\<close>, \<open>execute_query\<close>, \<open>check_connection\<close> or \<open>initialize_database\<close>, and any
  sequence of them, leaves the service object unchanged, and \<open>get_pool\<close> returns that pool.
\<close>

theorem pool_kept_and_reused:
  assumes "pool (shared s) = Some p"
  shows "pool (shared (run_schedule sched s)) \<noteq> None \<and>
         (AwaitingCreate \<notin> snd ` set (calls s) \<longrightarrow>
            shared (run_schedule sched s) = shared s \<and>
            pool (shared (run_schedule sched s)) = Some p \<and>
            AwaitingCreate \<notin> snd ` set (calls (run_schedule sched s)) \<and>
            (\<forall>k < length (calls s). snd (calls s ! k) = NotStarted \<longrightarrow>
               snd (calls (run_schedule sched s) ! k) = NotStarted \<or>
               snd (calls (run_schedule sched s) ! k) = Returned (Some p))) \<and>
         get_pool db (shared s) = (Inr (Some p), shared s) \<and>
         snd (execute_query rt db (shared s) sql_query interp) = shared s \<and>
         snd (check_connection rt db (shared s)) = shared s \<and>
         snd (initialize_database db (shared s)) = shared s \<and>
         pool (geo_run rt cs (shared s)) = Some p \<and>
         fst (get_pool db (geo_run rt cs (shared s))) = Inr (Some p)"
proof -
  have never_none: "pool (shared (run_schedule sched s)) \<noteq> None"
    using run_schedule_keeps_some [OF assms, of sched] by auto
  have settled:
    "shared (run_schedule sched s) = shared s \<and>
     pool (shared (run_schedule sched s)) = Some p \<and>
     AwaitingCreate \<notin> snd ` set (calls (run_schedule sched s)) \<and>
     (\<forall>k < length (calls s). snd (calls s ! k) = NotStarted \<longrightarrow>
        snd (calls (run_schedule sched s) ! k) = NotStarted \<or>
        snd (calls (run_schedule sched s) ! k) = Returned (Some p))"
    if "AwaitingCreate \<notin> snd ` set (calls s)"
    using run_schedule_settled [OF assms that, of sched] assms by auto
  show ?thesis
    using never_none settled
      sequential_calls_keep_pool [OF assms, of db rt sql_query interp cs]
    by blast
qed

lemma settled_run_state:
  "shared settled_run = \<lparr>pool = Some 7\<rparr>"
  "calls settled_run =
     [(GetPool, Returned (Some 7)), (ExecuteQuery ''SELECT 1'' JNull, NotStarted),
      (CheckConnection, NotStarted)]"
  by code_simp+

theorem pool_kept_and_reused_witness:
  "pool (shared settled_run) = Some 7 \<and>
   AwaitingCreate \<notin> snd ` set (calls settled_run) \<and>
   snd (calls settled_run ! 1) = NotStarted \<and>
   pool (shared (run_schedule later_schedule settled_run)) = Some 7 \<and>
   (snd (calls (run_schedule later_schedule settled_run) ! 1) = NotStarted \<or>
    snd (calls (run_schedule later_schedule settled_run) ! 1) = Returned (Some 7)) \<and>
   get_pool unreachable_db (shared settled_run) = (Inr (Some 7), shared settled_run) \<and>
   snd (execute_query plain_runtime unreachable_db (shared settled_run) ''SELECT 1'' JNull)
     = shared settled_run \<and>
   pool (geo_run plain_runtime later_calls (shared settled_run)) = Some 7"
proof -
  have h1: "pool (shared settled_run) = Some 7"
    by (simp add: settled_run_state)
  have h2: "AwaitingCreate \<notin> snd ` set (calls settled_run)"
    by (simp add: settled_run_state)
  have h3: "snd (calls settled_run ! 1) = NotStarted" "1 < length (calls settled_run)"
    by (simp_all add: settled_run_state)
  show ?thesis
    using h1 h2 h3
      pool_kept_and_reused [OF h1, of later_schedule unreachable_db plain_runtime
        "''SELECT 1''" JNull later_calls]
    by blast
qed

section \<open>Properties of the executor\<close>

lemma execute_query_returns:
  "\<exists>rows. fst (execute_query rt db self sql_query interp) = Inr rows"
  by (auto simp: execute_query_def get_pool_cases try_except_def split: sum.splits option.splits)

lemma with_connection_fails:
  "isl (acquire db p) \<or> (\<exists>c. acquire db p = Inr c \<and> (isl (body c) \<or> isl (release db c)))
   \<Longrightarrow> isl (with_connection db p body)"
  by (auto simp: with_connection_def and_then_def isl_def split: sum.splits)

lemma execute_query_no_pool:
  "pool self = None \<Longrightarrow> isl (create_pool db) \<Longrightarrow>
   fst (execute_query rt db self sql_query interp) = Inr (get_mock_data interp)"
  by (auto simp: execute_query_def get_pool_def isl_def)

lemma execute_query_failed_body:
  assumes "pool self = Some p \<or> (pool self = None \<and> create_pool db = Inr p)"
    and "isl (with_connection db p (\<lambda>conn.
                and_then (fetch db conn sql_query) (\<lambda>rows. Inr (map (parse_geometry rt) rows))))"
  shows "fst (execute_query rt db self sql_query interp) = Inr (get_mock_data interp)"
  using assms
  by (auto simp: execute_query_def get_pool_def try_except_def isl_def
           split: sum.splits option.splits)

lemma fetch_failure_fails_body:
  "isl (fetch db c sql_query) \<Longrightarrow>
   isl (and_then (fetch db c sql_query) (\<lambda>rows. Inr (map (parse_geometry rt) rows)))"
  by (auto simp: and_then_def isl_def)

text \<open>
  Claim C3. \<open>execute_query\<close> always returns a row list. When the pool cannot be created, or a
  connection cannot be acquired, or the query or the release of the connection fails, the
  rows are the mock data: the same ten rows for every interpretation, centred on the grid
  around the Porto Alegre reference point, in strictly decreasing order of score.
\<close>

theorem execute_query_failure_gives_mock_data:
  "(\<exists>rows. fst (execute_query rt db self sql_query interp) = Inr rows) \<and>
   ((pool self = None \<and> isl (create_pool db)) \<or>
    (\<exists>p. (pool self = Some p \<or> (pool self = None \<and> create_pool db = Inr p)) \<and>
         (isl (acquire db p) \<or>
          (\<exists>c. acquire db p = Inr c \<and> (isl (fetch db c sql_query) \<or> isl (release db c)))))
    \<longrightarrow> fst (execute_query rt db self sql_query interp) = Inr (get_mock_data interp)) \<and>
   get_mock_data interp = get_mock_data other \<and>
   length (get_mock_data interp) = 10 \<and>
   map (\<lambda>r. map_of r ''center'') (get_mock_data interp) =
     map (\<lambda>i. Some (JDict
            [(''lat'', JNum (base_lat + of_int (int i mod 5 - 2) / 100)),
             (''lng'', JNum (base_lng + of_int (int i div 5 - 1) / 100))])) [0..<10] \<and>
   sorted_wrt (\<lambda>a b. score_key b < score_key a) (get_mock_data interp)"
proof -
  have returns: "\<exists>rows. fst (execute_query rt db self sql_query interp) = Inr rows"
    by (rule execute_query_returns)
  have fallback:
    "fst (execute_query rt db self sql_query interp) = Inr (get_mock_data interp)"
    if f: "(pool self = None \<and> isl (create_pool db)) \<or>
       (\<exists>p. (pool self = Some p \<or> (pool self = None \<and> create_pool db = Inr p)) \<and>
         (isl (acquire db p) \<or>
          (\<exists>c. acquire db p = Inr c \<and> (isl (fetch db c sql_query) \<or> isl (release db c)))))"
  proof -
    from f show ?thesis
    proof
      assume "pool self = None \<and> isl (create_pool db)"
      then show ?thesis by (simp add: execute_query_no_pool)
    next
      assume "\<exists>p. (pool self = Some p \<or> (pool self = None \<and> create_pool db = Inr p)) \<and>
         (isl (acquire db p) \<or>
          (\<exists>c. acquire db p = Inr c \<and> (isl (fetch db c sql_query) \<or> isl (release db c))))"
      then obtain p where
        p: "pool self = Some p \<or> (pool self = None \<and> create_pool db = Inr p)" and
        q: "isl (acquire db p) \<or>
          (\<exists>c. acquire db p = Inr c \<and> (isl (fetch db c sql_query) \<or> isl (release db c)))"
        by blast
      from q have "isl (acquire db p) \<or>
          (\<exists>c. acquire db p = Inr c \<and>
             (isl (and_then (fetch db c sql_query) (\<lambda>rows. Inr (map (parse_geometry rt) rows))) \<or>
              isl (release db c)))"
        using fetch_failure_fails_body by blast
      then have "isl (with_connection db p (\<lambda>conn.
                and_then (fetch db conn sql_query) (\<lambda>rows. Inr (map (parse_geometry rt) rows))))"
        by (rule with_connection_fails)
      with p show ?thesis by (rule execute_query_failed_body)
    qed
  qed
  have const: "get_mock_data interp = get_mock_data other"
    by (simp add: get_mock_data_def)
  have centers: "map (\<lambda>r. map_of r ''center'') (get_mock_data interp) =
     map (\<lambda>i. Some (JDict
            [(''lat'', JNum (base_lat + of_int (int i mod 5 - 2) / 100)),
             (''lng'', JNum (base_lng + of_int (int i div 5 - 1) / 100))])) [0..<10]"
    unfolding get_mock_data_const [of interp] by (rule mock_centers)
  show ?thesis
    using returns fallback const centers mock_length [of interp] mock_sorted_strict [of interp]
    by blast
qed

theorem execute_query_failure_gives_mock_data_witness:
  "pool geospatial_init = None \<and> isl (create_pool unreachable_db) \<and>
   fst (execute_query plain_runtime unreachable_db geospatial_init ''SELECT 1'' JNull)
     = Inr (get_mock_data JNull) \<and>
   length (get_mock_data JNull) = 10"
proof -
  have h: "pool geospatial_init = None \<and> isl (create_pool unreachable_db)"
    by (simp add: geospatial_init_def unreachable_db_def)
  show ?thesis
    using h execute_query_failure_gives_mock_data
      [of plain_runtime unreachable_db geospatial_init "''SELECT 1''" JNull JNull]
    by blast
qed

section \<open>Properties of the photo-analysis confidence heuristic\<close>

text \<open>
  Claim C10. For every analysis text the confidence lies in the closed interval from 0 to 1:
  the final \<open>max\<close>/\<open>min\<close> clamps whatever the word hits added to the base 0.5.
\<close>

theorem calculate_confidence_in_unit_interval:
  "0 \<le> calculate_confidence text \<and> calculate_confidence text \<le> 1"
  by (simp add: calculate_confidence_def Let_def)

section \<open>Properties of the multi-city score\<close>

lemma city_database_scores:
  "map (\<lambda>(name, d). calculate_city_score d JNull ''general'') get_city_database =
   [Inr (477 / 5), Inr (483 / 5), Inr (439 / 5), Inr (451 / 5), Inr (181 / 2)]"
  by code_simp

lemma round_half_even_bounds: "\<lfloor>x\<rfloor> \<le> round_half_even x \<and> round_half_even x \<le> \<lfloor>x\<rfloor> + 1"
  by (simp add: round_half_even_def Let_def)

lemma round_half_even_mono:
  assumes "x \<le> y"
  shows "round_half_even x \<le> round_half_even y"
proof (cases "\<lfloor>x\<rfloor> = \<lfloor>y\<rfloor>")
  case True
  have "x - of_int \<lfloor>y\<rfloor> \<le> y - of_int \<lfloor>y\<rfloor>" using assms by simp
  then show ?thesis
    by (simp add: round_half_even_def Let_def True)
next
  case False
  have "\<lfloor>x\<rfloor> \<le> \<lfloor>y\<rfloor>" using assms by (rule floor_mono)
  with False have "\<lfloor>x\<rfloor> + 1 \<le> \<lfloor>y\<rfloor>" by simp
  then show ?thesis
    using round_half_even_bounds [of x] round_half_even_bounds [of y] by linarith
qed

lemma py_round_mono:
  assumes "x \<le> y"
  shows "py_round x d \<le> py_round y d"
proof -
  have "x * 10 ^ d \<le> y * 10 ^ d"
    using assms by (simp add: mult_right_mono)
  then have "round_half_even (x * 10 ^ d) \<le> round_half_even (y * 10 ^ d)"
    by (rule round_half_even_mono)
  then have "(of_int (round_half_even (x * 10 ^ d)) :: rat) \<le> of_int (round_half_even (y * 10 ^ d))"
    by simp
  then show ?thesis
    by (simp add: py_round_def divide_right_mono)
qed

lemma calculate_city_score_value:
  assumes "calculate_city_score d criteria business_type = Inr s"
  shows "\<exists>p i g. pop_value d = Inr p \<and> income_value d = Inr i \<and> growth_value d = Inr g \<and>
           s = py_round (min (50 + min (p * 3) 20 + min (of_int i / 200) 15 + comp_score d + g * 3) 100) 1"
  using assms
  by (auto simp: calculate_city_score_def and_then_def Let_def split: sum.splits)

lemma growth_value_cong: "growth_rate d' = growth_rate d \<Longrightarrow> growth_value d' = growth_value d"
  by (simp add: growth_value_def)

lemma income_value_cong: "avg_income d' = avg_income d \<Longrightarrow> income_value d' = income_value d"
  by (simp add: income_value_def)

lemma pop_value_cong: "population d' = population d \<Longrightarrow> pop_value d' = pop_value d"
  by (simp add: pop_value_def)

lemma comp_score_cong: "competition d' = competition d \<Longrightarrow> comp_score d' = comp_score d"
  by (simp add: comp_score_def competition_level_def)

lemma comp_score_antimono:
  assumes "competition_rank (competition_level d) = Some k"
    and "competition_rank (competition_level d') = Some k'"
    and "k \<le> k'"
  shows "comp_score d' \<le> comp_score d"
  using assms
  by (auto simp: competition_rank_def comp_score_def comp_map_def split: if_splits)

text \<open>
  Claim C6. With the other fields of a city's entry held fixed, the score does not decrease
  when the population value or the average income value grows, and does not increase when
  the competition level rises in the order low < medium < medium-high < high.
\<close>

theorem city_score_monotone:
  assumes "calculate_city_score d criteria business_type = Inr s"
    and "calculate_city_score d' criteria business_type = Inr s'"
  shows "(avg_income d' = avg_income d \<and> competition d' = competition d \<and>
          growth_rate d' = growth_rate d \<and>
          (\<exists>p p'. pop_value d = Inr p \<and> pop_value d' = Inr p' \<and> p \<le> p') \<longrightarrow> s \<le> s') \<and>
         (population d' = population d \<and> competition d' = competition d \<and>
          growth_rate d' = growth_rate d \<and>
          (\<exists>i i'. income_value d = Inr i \<and> income_value d' = Inr i' \<and> i \<le> i') \<longrightarrow> s \<le> s') \<and>
         (population d' = population d \<and> avg_income d' = avg_income d \<and>
          growth_rate d' = growth_rate d \<and>
          (\<exists>k k'. competition_rank (competition_level d) = Some k \<and>
                   competition_rank (competition_level d') = Some k' \<and> k \<le> k') \<longrightarrow> s' \<le> s)"
proof -
  obtain p i g where d: "pop_value d = Inr p" "income_value d = Inr i" "growth_value d = Inr g"
    and s: "s = py_round (min (50 + min (p * 3) 20 + min (of_int i / 200) 15 + comp_score d + g * 3) 100) 1"
    using calculate_city_score_value [OF assms(1)] by blast
  obtain p' i' g' where d': "pop_value d' = Inr p'" "income_value d' = Inr i'" "growth_value d' = Inr g'"
    and s': "s' = py_round (min (50 + min (p' * 3) 20 + min (of_int i' / 200) 15 + comp_score d' + g' * 3) 100) 1"
    using calculate_city_score_value [OF assms(2)] by blast
  have pop: "s \<le> s'"
    if "avg_income d' = avg_income d" "competition d' = competition d"
       "growth_rate d' = growth_rate d" "p \<le> p'"
  proof -
    have "i' = i" "g' = g" "comp_score d' = comp_score d"
      using that d d' income_value_cong [of d' d] growth_value_cong [of d' d]
        comp_score_cong [of d' d] by simp_all
    moreover have "min (p * 3) 20 \<le> min (p' * 3) 20"
      using that(4) by simp
    ultimately have "min (50 + min (p * 3) 20 + min (of_int i / 200) 15 + comp_score d + g * 3) 100
        \<le> min (50 + min (p' * 3) 20 + min (of_int i' / 200) 15 + comp_score d' + g' * 3) 100"
      by simp
    then show ?thesis unfolding s s' by (rule py_round_mono)
  qed
  have inc: "s \<le> s'"
    if "population d' = population d" "competition d' = competition d"
       "growth_rate d' = growth_rate d" "i \<le> i'"
  proof -
    have "p' = p" "g' = g" "comp_score d' = comp_score d"
      using that d d' pop_value_cong [of d' d] growth_value_cong [of d' d]
        comp_score_cong [of d' d] by simp_all
    moreover have "min (of_int i / 200) 15 \<le> min ((of_int i' :: rat) / 200) 15"
      using that(4) by (simp add: divide_right_mono)
    ultimately have "min (50 + min (p * 3) 20 + min (of_int i / 200) 15 + comp_score d + g * 3) 100
        \<le> min (50 + min (p' * 3) 20 + min (of_int i' / 200) 15 + comp_score d' + g' * 3) 100"
      by simp
    then show ?thesis unfolding s s' by (rule py_round_mono)
  qed
  have comp: "s' \<le> s"
    if "population d' = population d" "avg_income d' = avg_income d"
       "growth_rate d' = growth_rate d"
       "competition_rank (competition_level d) = Some k"
       "competition_rank (competition_level d') = Some k'" "k \<le> k'" for k k'
  proof -
    have "p' = p" "g' = g" "i' = i"
      using that d d' pop_value_cong [of d' d] growth_value_cong [of d' d]
        income_value_cong [of d' d] by simp_all
    moreover have "comp_score d' \<le> comp_score d"
      using that(4-6) by (rule comp_score_antimono)
    ultimately have "min (50 + min (p' * 3) 20 + min (of_int i' / 200) 15 + comp_score d' + g' * 3) 100
        \<le> min (50 + min (p * 3) 20 + min (of_int i / 200) 15 + comp_score d + g * 3) 100"
      by simp
    then show ?thesis unfolding s s' by (rule py_round_mono)
  qed
  show ?thesis
    using pop inc comp d d' by auto
qed

lemma porto_alegre_in_table: "map_of get_city_database ''Porto Alegre'' = Some porto_alegre_data"
  by code_simp

theorem city_score_monotone_witness:
  "calculate_city_score porto_alegre_data JNull ''general'' = Inr (439 / 5) \<and>
   calculate_city_score larger_city JNull ''general'' = Inr (893 / 10) \<and>
   pop_value porto_alegre_data = Inr (14 / 10) \<and> pop_value larger_city = Inr (19 / 10) \<and>
   (439 / 5 :: rat) \<le> 893 / 10 \<and>
   calculate_city_score poorer_city JNull ''general'' = Inr (424 / 5) \<and>
   income_value poorer_city = Inr 2400 \<and> income_value porto_alegre_data = Inr 3400 \<and>
   (424 / 5 :: rat) \<le> 439 / 5 \<and>
   calculate_city_score contested_city JNull ''general'' = Inr (404 / 5) \<and>
   competition_rank (competition_level porto_alegre_data) = Some 1 \<and>
   competition_rank (competition_level contested_city) = Some 3 \<and>
   (404 / 5 :: rat) \<le> 439 / 5"
proof -
  have e0: "calculate_city_score porto_alegre_data JNull ''general'' = Inr (439 / 5)"
    by code_simp
  have e1: "calculate_city_score larger_city JNull ''general'' = Inr (893 / 10)"
    by code_simp
  have e2: "calculate_city_score poorer_city JNull ''general'' = Inr (424 / 5)"
    by code_simp
  have e3: "calculate_city_score contested_city JNull ''general'' = Inr (404 / 5)"
    by code_simp
  have v1: "pop_value porto_alegre_data = Inr (14 / 10)" "pop_value larger_city = Inr (19 / 10)"
    by code_simp+
  have v2: "income_value poorer_city = Inr 2400" "income_value porto_alegre_data = Inr 3400"
    by code_simp+
  have v3: "competition_rank (competition_level porto_alegre_data) = Some 1"
    "competition_rank (competition_level contested_city) = Some 3"
    by code_simp+
  have f1: "avg_income larger_city = avg_income porto_alegre_data"
    "competition larger_city = competition porto_alegre_data"
    "growth_rate larger_city = growth_rate porto_alegre_data"
    by (simp_all add: larger_city_def)
  have f2: "population porto_alegre_data = population poorer_city"
    "competition porto_alegre_data = competition poorer_city"
    "growth_rate porto_alegre_data = growth_rate poorer_city"
    by (simp_all add: poorer_city_def)
  have f3: "population contested_city = population porto_alegre_data"
    "avg_income contested_city = avg_income porto_alegre_data"
    "growth_rate contested_city = growth_rate porto_alegre_data"
    by (simp_all add: contested_city_def)
  have r1: "(439 / 5 :: rat) \<le> 893 / 10"
    using city_score_monotone [OF e0 e1] f1 v1 by simp
  have r2: "(424 / 5 :: rat) \<le> 439 / 5"
    using city_score_monotone [OF e2 e0] f2 v2 by simp
  have r3: "(404 / 5 :: rat) \<le> 439 / 5"
    using city_score_monotone [OF e0 e3] f3 v3 by simp
  show ?thesis
    using e0 e1 e2 e3 v1 v2 v3 r1 r2 r3 by simp
qed

section \<open>Properties of the enrichment step\<close>

lemma enrich_with_places_disabled:
  "\<not> maps_enabled self \<Longrightarrow> enrich_with_places self results interp = Inr results"
  by (simp add: enrich_with_places_def)

text \<open>
  A row whose lookup raises gets the empty list, provided its centre has both coordinates.
\<close>

lemma enrich_row_lookup_failure:
  assumes "map_of result ''center'' = Some center"
    and "py_item center ''lat'' = Inr lat" and "py_item center ''lng'' = Inr lng"
    and "isl (lookup_places self (lat, lng) place_types)"
  shows "enrich_row self place_types result =
           Inr (AList.update ''nearby_places'' (JList []) result)"
  using assms
  by (auto simp: enrich_row_def and_then_def try_except_def isl_def)

text \<open>
  Claim C2 (fails on the code). With the maps key configured, \<open>enrich_with_places\<close> raises
  \<open>KeyError\<close> on a row whose \<open>center\<close> has no \<open>lat\<close>, and \<open>AttributeError\<close> on an
  interpretation whose business filter has a numeric value: the coordinates are read, and the
  place types extracted, outside the \<open>try\<close> block.
\<close>

theorem enrich_with_places_raises:
  "maps_enabled live_maps \<and>
   enrich_with_places live_maps [row_without_coordinates] (fallback_interpretation coffee_query)
     = Inl (KeyError ''lat'') \<and>
   enrich_with_places live_maps (get_mock_data JNull) numeric_filter_interpretation
     = Inl AttributeError"
  by code_simp

section \<open>Properties of the HTTP handlers\<close>

lemma and_then_Inr: "and_then (Inr x) f = f x"
  by (simp add: and_then_def)

lemma and_then_Inl: "and_then (Inl e) f = Inl e"
  by (simp add: and_then_def)

lemma process_query_returns: "\<exists>resp. fst (process_query rt db ap request) = Inr resp"
  by (auto simp: process_query_def try_except_def split: prod.splits sum.splits)

lemma lower_polygon: "lower ''polygon'' = ''polygon''" "lower ''proximity'' = ''proximity''"
  by code_simp+

lemma polygon_keywords:
  "\<not> contains ''polygon'' ''heatmap''" "\<not> contains ''proximity'' ''density''"
  "contains ''polygon'' ''polygon''"
  by code_simp+

lemma fallback_visualization:
  "results \<noteq> [] \<Longrightarrow>
   determine_visualization_type (fallback_interpretation query) results = Inr ''polygon''"
  by (simp add: determine_visualization_type_def fallback_interpretation_def Let_def
      py_get_def py_lower_def and_then_def lower_polygon polygon_keywords)

lemma fallback_sql_query_returns:
  "\<exists>sql. fallback_sql_query rt (fallback_interpretation query) = Inr sql"
  by (simp add: fallback_sql_query_def fallback_interpretation_def Let_def py_get_def and_then_def)

lemma fallback_enrich_flag:
  "\<exists>b. py_get (fallback_interpretation query) ''enrich_with_places'' JNull = Inr (JBool b)"
  by (simp add: fallback_interpretation_def Let_def py_get_def)

lemma process_query_unconfigured:
  assumes "\<not> llm_enabled (llm ap)" "\<not> maps_enabled (maps ap)"
    "pool (geo ap) = None" "isl (create_pool db)"
  shows "\<exists>resp. fst (process_query rt db ap request) = Inr resp \<and>
           resp_success resp \<and> resp_error resp = None \<and>
           resp_query resp = req_query request \<and>
           resp_results resp = get_mock_data (fallback_interpretation (req_query request)) \<and>
           resp_visualization_type resp = ''polygon''"
proof -
  let ?i = "fallback_interpretation (req_query request)"
  have i: "interpret_query (llm ap) (req_query request) (req_context request) = Inr ?i"
    using assms(1) by (rule interpret_query_disabled)
  obtain sql where sql: "generate_sql_query rt (llm ap) ?i = Inr sql"
    using fallback_sql_query_returns [of rt "req_query request"] assms(1)
    by (auto simp: generate_sql_query_def)
  obtain geo' where e: "execute_query rt db (geo ap) sql ?i = (Inr (get_mock_data ?i), geo')"
    using execute_query_no_pool [OF assms(3,4), of rt sql ?i]
    by (cases "execute_query rt db (geo ap) sql ?i") simp
  obtain b where b: "py_get ?i ''enrich_with_places'' JNull = Inr (JBool b)"
    using fallback_enrich_flag by blast
  have m: "enrich_with_places (maps ap) (get_mock_data ?i) ?i = Inr (get_mock_data ?i)"
    using assms(2) by (simp add: enrich_with_places_def)
  have ne: "get_mock_data ?i \<noteq> []"
    using mock_length [of ?i] by auto
  have v: "determine_visualization_type ?i (get_mock_data ?i) = Inr ''polygon''"
    using ne by (rule fallback_visualization)
  show ?thesis
    by (simp add: process_query_def process_query_body_def i sql e b m v and_then_def
        try_except_def)
qed

lemma check_connection_no_pool:
  "pool self = None \<Longrightarrow> isl (create_pool db) \<Longrightarrow>
   fst (check_connection rt db self) = Inr ''unhealthy''"
  by (auto simp: check_connection_def get_pool_def isl_def and_then_def try_except_def)

lemma health_check_unconfigured:
  assumes "pool (geo ap) = None" "isl (create_pool db)"
  shows "\<exists>payload. fst (health_check rt db ap) = Inr (JDict payload) \<and>
           map_of payload ''api'' = Some (JStr ''healthy'') \<and>
           map_of payload ''database'' = Some (JStr ''unhealthy'')"
proof -
  obtain geo' where "check_connection rt db (geo ap) = (Inr ''unhealthy'', geo')"
    using check_connection_no_pool [OF assms, of rt]
    by (cases "check_connection rt db (geo ap)") simp
  then show ?thesis
    by (simp add: health_check_def and_then_def)
qed

lemma enrich_data_unconfigured:
  "\<not> maps_enabled (maps ap) \<Longrightarrow>
   enrich_data rt ap =
     Inr (JDict [(''success'', JBool True),
                 (''result'', JDict [(''error'', JStr ''Google Maps API not configured'')])])"
  by (simp add: enrich_data_def or_http_500_def enrich_database_def and_then_def try_except_def)

lemma collect_succeeds:
  "(\<And>x. x \<in> set xs \<Longrightarrow> \<exists>y. f x = Inr y) \<Longrightarrow> \<exists>ys. collect f xs = Inr ys"
proof (induction xs)
  case Nil
  then show ?case by simp
next
  case (Cons x xs)
  then obtain y where "f x = Inr y" by fastforce
  moreover obtain ys where "collect f xs = Inr ys" using Cons by fastforce
  ultimately show ?case by simp
qed

lemma mock_poi_entry_succeeds:
  assumes "n \<noteq> 0" "map_of location ''lat'' = Some a" "map_of location ''lng'' = Some b"
  shows "\<exists>entry q. mock_poi_entry location (Some n) i poi_type = Inr entry \<and>
           and_then (py_item entry ''score'') number_value = Inr q"
  using assms
  by (simp add: mock_poi_entry_def Let_def true_div_def coord_def int_le_def and_then_def
      py_item_def max_zero_def number_value_def)

lemma set_update_subset: "set (AList.update k v al) \<subseteq> insert (k, v) (set al)"
  by (induction al) auto

lemma mock_scores_loop_succeeds:
  assumes "n \<noteq> 0" "map_of location ''lat'' = Some a" "map_of location ''lng'' = Some b"
    and "\<And>kv. kv \<in> set scores \<Longrightarrow> \<exists>q. and_then (py_item (snd kv) ''score'') number_value = Inr q"
    and "poi_types \<noteq> [] \<or> scores \<noteq> []"
  shows "\<exists>scores'. mock_scores_loop location (Some n) i poi_types scores = Inr scores' \<and>
           scores' \<noteq> [] \<and>
           (\<forall>kv \<in> set scores'. \<exists>q. and_then (py_item (snd kv) ''score'') number_value = Inr q)"
  using assms(4,5)
proof (induction poi_types arbitrary: i scores)
  case Nil
  then show ?case by auto
next
  case (Cons t ts)
  obtain entry q where entry: "mock_poi_entry location (Some n) i t = Inr entry"
    and q: "and_then (py_item entry ''score'') number_value = Inr q"
    using mock_poi_entry_succeeds [OF assms(1-3)] by blast
  have ok: "\<exists>q. and_then (py_item (snd kv) ''score'') number_value = Inr q"
    if "kv \<in> set (AList.update t entry scores)" for kv
  proof -
    from that set_update_subset have "kv = (t, entry) \<or> kv \<in> set scores" by fastforce
    then show ?thesis
    proof
      assume "kv = (t, entry)"
      then show ?thesis using q by auto
    next
      assume "kv \<in> set scores"
      then show ?thesis by (rule Cons.prems(1))
    qed
  qed
  have "ts \<noteq> [] \<or> AList.update t entry scores \<noteq> []" by simp
  from Cons.IH [OF ok this, of "Suc i"] show ?case by (simp add: entry)
qed

lemma mock_accessibility_analysis_succeeds:
  assumes "n \<noteq> 0" "map_of location ''lat'' = Some a" "map_of location ''lng'' = Some b"
    and "poi_types \<noteq> []"
  shows "\<exists>payload. mock_accessibility_analysis location poi_types (Some n) = Inr (JDict payload) \<and>
           map_of payload ''success'' = Some (JBool True)"
proof -
  obtain scores where s: "mock_scores_loop location (Some n) 0 poi_types [] = Inr scores"
    and ne: "scores \<noteq> []"
    and ok: "\<forall>kv \<in> set scores. \<exists>q. and_then (py_item (snd kv) ''score'') number_value = Inr q"
    using mock_scores_loop_succeeds [OF assms(1-3), of "[]" poi_types 0] assms(4) by auto
  obtain vals where v: "collect (\<lambda>kv. and_then (py_item (snd kv) ''score'') number_value) scores = Inr vals"
    using collect_succeeds [of scores "\<lambda>kv. and_then (py_item (snd kv) ''score'') number_value"] ok
    by blast
  show ?thesis
    using ne by (simp add: mock_accessibility_analysis_def s v and_then_Inr float_div_nat_def)
qed

lemma mock_accessibility_analysis_empty:
  "mock_accessibility_analysis location [] max_duration = Inl ZeroDivisionError"
  by (simp add: mock_accessibility_analysis_def and_then_Inr and_then_Inl float_div_nat_def)

lemma default_poi_types_nonempty: "default_poi_types \<noteq> []"
  by (simp add: default_poi_types_def)

lemma accessibility_handler_succeeds:
  assumes "\<not> routing_enabled (routing ap)"
    and "acc_poi_types request \<noteq> Some []"
    and "acc_max_duration_minutes request = Some n" "n \<noteq> 0"
    and "map_of (acc_location request) ''lat'' = Some a"
    and "map_of (acc_location request) ''lng'' = Some b"
  shows "\<exists>payload. analyze_location_accessibility rt ap request = Inr (JDict payload) \<and>
           map_of payload ''success'' = Some (JBool True)"
proof -
  let ?tys = "case acc_poi_types request of None \<Rightarrow> default_poi_types | Some ts \<Rightarrow> ts"
  have "?tys \<noteq> []"
    using assms(2) default_poi_types_nonempty by (cases "acc_poi_types request") auto
  from mock_accessibility_analysis_succeeds [OF assms(4-6) this]
  show ?thesis
    using assms(1,3)
    by (auto simp: analyze_location_accessibility_def analyze_accessibility_def or_http_500_def
        try_except_def Let_def)
qed

lemma accessibility_handler_empty:
  assumes "\<not> routing_enabled (routing ap)" and "acc_poi_types request = Some []"
  shows "analyze_location_accessibility rt ap request =
           Inl (HTTPException 500 (str_exc rt ZeroDivisionError))"
  using assms
  by (simp add: analyze_location_accessibility_def analyze_accessibility_def or_http_500_def
      try_except_def mock_accessibility_analysis_empty)

lemma accessibility_endpoint_empty:
  assumes "\<not> routing_enabled (routing ap)" and "acc_poi_types request = Some []"
  shows "accessibility_endpoint rt ap request =
           Http 500 (JDict [(''detail'', JStr (str_exc rt ZeroDivisionError))])"
  using accessibility_handler_empty [OF assms, of rt]
  by (simp add: accessibility_endpoint_def respond_def)

text \<open>
  A \<open>nan\<close> latitude passes the handler and is refused when the payload is rendered; the
  default request is answered with status 200.
\<close>

lemma accessibility_nan_latitude_http_500:
  "accessibility_endpoint plain_runtime unconfigured_app nan_latitude_request =
     Http 500 (JStr ''Internal Server Error'')"
  by code_simp

lemma accessibility_default_http_200:
  "(case accessibility_endpoint plain_runtime unconfigured_app default_poi_request of
      Http code body \<Rightarrow> code) = 200"
  by code_simp

text \<open>
  Claim C1 (fails on the code). With no key configured and the database unreachable, the
  \<open>/routing/accessibility\<close> endpoint answers a request whose \<open>poi_types\<close> is the empty
  list with HTTP 500 instead of a payload: the mock analysis, the fallback that is meant to
  answer in this state, divides by the number of scores.
\<close>

theorem accessibility_unconfigured_http_500:
  "\<not> llm_enabled (llm unconfigured_app) \<and> \<not> maps_enabled (maps unconfigured_app) \<and>
   \<not> routing_enabled (routing unconfigured_app) \<and> pool (geo unconfigured_app) = None \<and>
   isl (create_pool unreachable_db) \<and>
   acc_poi_types empty_poi_request = Some [] \<and>
   mock_accessibility_analysis (acc_location empty_poi_request) [] (Some 15)
     = Inl ZeroDivisionError \<and>
   analyze_location_accessibility plain_runtime unconfigured_app empty_poi_request
     = Inl (HTTPException 500 ''division by zero'') \<and>
   accessibility_endpoint plain_runtime unconfigured_app empty_poi_request
     = Http 500 (JDict [(''detail'', JStr ''division by zero'')])"
  by code_simp

end
